theory Spec2Isabelle
  imports Main "HOL-Library.Word"
begin

section \<open>JavaScript strings\<close>

text \<open>
  A JavaScript string is a sequence of 16-bit code units. String literals of the source
  are written with \<open>js\<close>, which reads each character of an ASCII literal as its code
  unit.
\<close>

type_synonym code_unit = "16 word"

type_synonym jstring = "code_unit list"

definition js :: "string \<Rightarrow> jstring" where
  "js s = map of_char s"

section \<open>Data model\<close>

text \<open>
  The document exchanged with the server (\<^verbatim>\<open>{ fronts: Front[] }\<close>) and the objects
  nested in it, as \<^verbatim>\<open>scripts/main.js\<close> reads and writes them. A field the code tests
  for presence before using it (\<^verbatim>\<open>if (!front.cast) front.cast = []\<close>,
  \<^verbatim>\<open>this.#frontsData?.fronts\<close>) is an \<open>option\<close>, \<open>None\<close> standing for a missing
  field. \<^verbatim>\<open>front.dangers\<close> is dereferenced unguarded everywhere (\<^verbatim>\<open>.map\<close>,
  \<^verbatim>\<open>.find\<close>, \<^verbatim>\<open>.filter\<close>, \<^verbatim>\<open>.push\<close>), so it is a plain list.

  An array of text lines is a list of slots: the index assignment
  \<^verbatim>\<open>front.cast[index] = newValue\<close> beyond the end of a JavaScript array extends the
  array and leaves holes, which read as \<^verbatim>\<open>undefined\<close>; \<open>None\<close> is such a hole.
\<close>

type_synonym line = "jstring option"

record portent =
  portent_id :: jstring
  portent_text :: jstring
  completed :: bool

record secret =
  secret_id :: jstring
  xp :: int
  secret_text :: jstring
  revealed :: bool
  revealedAt :: "jstring option"

record danger =
  danger_id :: jstring
  danger_name :: jstring
  dangerType :: jstring
  impulse :: jstring
  impendingDoom :: jstring
  grimPortents :: "portent list option"
  secrets :: "secret list option"
  locations :: "line list option"

record front =
  front_id :: jstring
  front_name :: jstring
  front_type :: jstring
  cast :: "line list option"
  stakes :: "line list option"
  playerHooks :: "line list option"
  dangers :: "danger list"

record document =
  fronts :: "front list option"

section \<open>Application state and observable effects\<close>

text \<open>
  What the application does to the outside world, in the order it does it: the requests
  \<^verbatim>\<open>GET /api/fronts\<close> and \<^verbatim>\<open>POST /api/fronts/save\<close> (with the \<^verbatim>\<open>fronts\<close> value of
  its body), the calls of \<^verbatim>\<open>this.render()\<close>, the notifications of
  \<^verbatim>\<open>ui.notifications\<close>, and an exception that leaves an event handler uncaught.
  Console output is left out.
\<close>

datatype event =
  FetchCall
  | SaveCall "front list option"
  | Render
  | NotifyError jstring
  | NotifyInfo jstring
  | Uncaught jstring

text \<open>
  The private fields of \<^verbatim>\<open>FrontManagerApp\<close>, and the effects issued so far.
\<close>

record state =
  frontsData :: "document option"
  expandedFronts :: "jstring set"
  expandedDangers :: "jstring set"
  loading :: bool
  error :: "jstring option"
  scrollPosition :: nat
  effects :: "event list"

text \<open>
  What \<^verbatim>\<open>fetch\<close> resolves to: the promise rejects with a message (no connection), or a
  response arrives with its \<^verbatim>\<open>ok\<close> flag, its status, and a body whose
  \<^verbatim>\<open>response.json()\<close> either rejects, or yields \<^verbatim>\<open>null\<close>, or yields a document.
\<close>

datatype body = BadJson jstring | JsonNull | JsonDoc document

datatype response = TransportFailure jstring | HttpResponse bool nat body

section \<open>Numbers in template literals\<close>

text \<open>
  Decimal rendering of a number inside a template literal
  (\<^verbatim>\<open>${response.status}\<close>): its digits as ASCII text, which \<open>js\<close> turns into code
  units where the rendering is spliced into a string.
\<close>

definition digit_char :: "nat \<Rightarrow> char" where
  "digit_char d = ''0123456789'' ! d"

function show_nat :: "nat \<Rightarrow> string" where
  "show_nat n = (if n < 10 then [digit_char n] else show_nat (n div 10) @ [digit_char (n mod 10)])"
  by pat_completeness auto
termination
  by (relation "measure (\<lambda>n. n)") auto

declare show_nat.simps [simp del]

text \<open>
  The message of the \<^verbatim>\<open>TypeError\<close> raised by reading \<^verbatim>\<open>.fronts\<close> of \<^verbatim>\<open>null\<close>, in the
  wording of the V8 engine.
\<close>

definition null_fronts_message :: jstring where
  "null_fronts_message =
     (js ''Cannot read properties of null (reading '') @ js [CHR 0x27] @ (js ''fronts'') @ js [CHR 0x27] @ (js '')'')"

section \<open>API communication\<close>

text \<open>
  The common opening of both \<^verbatim>\<open>try\<close> blocks,
  \<^verbatim>\<open>const response = await fetch(...); if (!response.ok) throw new Error(`Server error: ${response.status}`)\<close>:
  the message of the exception it raises, if it raises one.
\<close>

definition request_error :: "response \<Rightarrow> jstring option" where
  "request_error r =
     (case r of
        TransportFailure m \<Rightarrow> Some m
      | HttpResponse ok status b \<Rightarrow>
          if \<not> ok then Some ((js ''Server error: '') @ js (show_nat status)) else None)"

text \<open>
  What \<^verbatim>\<open>await response.json()\<close> yields; it is only reached with a response in hand.
\<close>

definition response_json :: "response \<Rightarrow> body" where
  "response_json r = (case r of TransportFailure m \<Rightarrow> BadJson m | HttpResponse ok status b \<Rightarrow> b)"

text \<open>
  The \<^verbatim>\<open>try\<close> block of \<^verbatim>\<open>#fetchFronts\<close>: the state it leaves, and the message of the
  exception it raised, if any. A \<^verbatim>\<open>null\<close> body is assigned to \<^verbatim>\<open>#frontsData\<close> before
  the logging line \<^verbatim>\<open>this.#frontsData.fronts?.length\<close> raises.
\<close>

definition fetchFronts_try :: "response \<Rightarrow> state \<Rightarrow> state \<times> jstring option" where
  "fetchFronts_try r st =
     (case request_error r of
        Some m \<Rightarrow> (st, Some m)
      | None \<Rightarrow>
          (case response_json r of
             BadJson m \<Rightarrow> (st, Some m)
           | JsonNull \<Rightarrow> (st\<lparr>frontsData := None\<rparr>, Some null_fronts_message)
           | JsonDoc d \<Rightarrow> (st\<lparr>frontsData := Some d\<rparr>, None)))"

definition fetchFronts :: "response \<Rightarrow> state \<Rightarrow> state" where
  "fetchFronts r st =
     (let st1 = st\<lparr>loading := True, error := None, effects := effects st @ [FetchCall]\<rparr>;
          (st2, thrown) = fetchFronts_try r st1;
          st3 = (case thrown of
                   None \<Rightarrow> st2
                 | Some m \<Rightarrow> st2\<lparr>error := Some ((js ''Verbindung zum Server fehlgeschlagen: '') @ m)\<rparr>)
      in st3\<lparr>loading := False\<rparr>)"

definition notify_error :: "jstring \<Rightarrow> state \<Rightarrow> state" where
  "notify_error m st = st\<lparr>effects := effects st @ [NotifyError m]\<rparr>"

definition notify_info :: "jstring \<Rightarrow> state \<Rightarrow> state" where
  "notify_info m st = st\<lparr>effects := effects st @ [NotifyInfo m]\<rparr>"

definition render :: "state \<Rightarrow> state" where
  "render st = st\<lparr>effects := effects st @ [Render]\<rparr>"

text \<open>
  \<^verbatim>\<open>#saveFronts\<close> returns whether the save succeeded. The request body
  \<^verbatim>\<open>JSON.stringify({ fronts: this.#frontsData.fronts })\<close> is computed inside the
  \<^verbatim>\<open>try\<close> block, so with a \<^verbatim>\<open>null\<close> document no request goes out and the
  \<^verbatim>\<open>TypeError\<close> is reported like any other failure.
\<close>

definition saveFronts :: "response \<Rightarrow> state \<Rightarrow> bool \<times> state" where
  "saveFronts r st =
     (case frontsData st of
        None \<Rightarrow> (False, notify_error ((js ''Fehler beim Speichern: '') @ null_fronts_message) st)
      | Some d \<Rightarrow>
          (let st1 = st\<lparr>effects := effects st @ [SaveCall (fronts d)]\<rparr>
           in case request_error r of
                Some m \<Rightarrow> (False, notify_error ((js ''Fehler beim Speichern: '') @ m) st1)
              | None \<Rightarrow> (True, st1)))"

section \<open>Helper methods\<close>

text \<open>The array read by \<^verbatim>\<open>this.#frontsData?.fronts || []\<close>.\<close>

definition fronts_or_empty :: "state \<Rightarrow> front list" where
  "fronts_or_empty st =
     (case frontsData st of
        None \<Rightarrow> []
      | Some d \<Rightarrow> (case fronts d of None \<Rightarrow> [] | Some fs \<Rightarrow> fs))"

text \<open>\<^verbatim>\<open>#getFront\<close>: \<^verbatim>\<open>this.#frontsData?.fronts?.find(f => f.id === frontId)\<close>.\<close>

definition getFront :: "state \<Rightarrow> jstring \<Rightarrow> front option" where
  "getFront st frontId =
     (case frontsData st of
        None \<Rightarrow> None
      | Some d \<Rightarrow>
          (case fronts d of
             None \<Rightarrow> None
           | Some fs \<Rightarrow> find (\<lambda>f. front_id f = frontId) fs))"

text \<open>The \<^verbatim>\<open>for ... of\<close> loop of \<^verbatim>\<open>#getDanger\<close> over the fronts still to visit.\<close>

fun getDanger_loop :: "front list \<Rightarrow> jstring \<Rightarrow> (front \<times> danger) option" where
  "getDanger_loop [] dangerId = None"
| "getDanger_loop (f # fs) dangerId =
     (case find (\<lambda>d. danger_id d = dangerId) (dangers f) of
        Some d \<Rightarrow> Some (f, d)
      | None \<Rightarrow> getDanger_loop fs dangerId)"

definition getDanger :: "state \<Rightarrow> jstring \<Rightarrow> (front \<times> danger) option" where
  "getDanger st dangerId = getDanger_loop (fronts_or_empty st) dangerId"

text \<open>
  \<^verbatim>\<open>#generateId\<close> reads the clock and the random generator; both readings are
  parameters: \<open>now\<close> is \<^verbatim>\<open>Date.now()\<close> and \<open>rnd\<close> is the text
  \<^verbatim>\<open>Math.random().toString(36).substr(2, 9)\<close>.
\<close>

definition generateId :: "jstring \<Rightarrow> nat \<Rightarrow> jstring \<Rightarrow> jstring" where
  "generateId prefix now rnd = prefix @ (js ''-'') @ js (show_nat now) @ (js ''-'') @ rnd"

section \<open>Objects mutated in place\<close>

text \<open>
  The handlers hold a reference to an object found by \<^verbatim>\<open>find\<close> and assign to its
  fields. The documents are trees (they come from \<^verbatim>\<open>response.json()\<close>, and a created
  object is pushed once), so assigning through the reference is replacing the first
  element that \<^verbatim>\<open>find\<close> selects.
\<close>

fun modify_first :: "('a \<Rightarrow> bool) \<Rightarrow> ('a \<Rightarrow> 'a) \<Rightarrow> 'a list \<Rightarrow> 'a list" where
  "modify_first P g [] = []"
| "modify_first P g (x # xs) = (if P x then g x # xs else x # modify_first P g xs)"

definition modifyFronts :: "(front list \<Rightarrow> front list) \<Rightarrow> state \<Rightarrow> state" where
  "modifyFronts g st =
     st\<lparr>frontsData := map_option (\<lambda>d. d\<lparr>fronts := map_option g (fronts d)\<rparr>) (frontsData st)\<rparr>"

text \<open>Assignment to the object \<^verbatim>\<open>#getFront(frontId)\<close> returned.\<close>

definition modifyFront :: "jstring \<Rightarrow> (front \<Rightarrow> front) \<Rightarrow> state \<Rightarrow> state" where
  "modifyFront frontId g st = modifyFronts (modify_first (\<lambda>f. front_id f = frontId) g) st"

text \<open>Assignment to the \<^verbatim>\<open>danger\<close> of the pair \<^verbatim>\<open>#getDanger(dangerId)\<close> returned.\<close>

definition modifyDanger :: "jstring \<Rightarrow> (danger \<Rightarrow> danger) \<Rightarrow> state \<Rightarrow> state" where
  "modifyDanger dangerId g st =
     modifyFronts
       (modify_first (\<lambda>f. find (\<lambda>d. danger_id d = dangerId) (dangers f) \<noteq> None)
          (\<lambda>f. f\<lparr>dangers := modify_first (\<lambda>d. danger_id d = dangerId) g (dangers f)\<rparr>)) st"

text \<open>
  \<^verbatim>\<open>xs[index] = v\<close>: inside the array it replaces the slot, beyond its end it extends
  the array, leaving holes. \<^verbatim>\<open>xs.splice(index, 1)\<close> removes the slot at \<open>index\<close> if
  there is one. The index is the \<^verbatim>\<open>data-index\<close> attribute the template wrote, a
  position in the rendered array, hence a natural number.
\<close>

definition assign_index :: "line list \<Rightarrow> nat \<Rightarrow> jstring \<Rightarrow> line list" where
  "assign_index xs index v =
     (if index < length xs then xs[index := Some v]
      else xs @ replicate (index - length xs) None @ [Some v])"

definition splice1 :: "'a list \<Rightarrow> nat \<Rightarrow> 'a list" where
  "splice1 xs index = take index xs @ drop (Suc index) xs"

text \<open>
  \<^verbatim>\<open>String.prototype.trim\<close> removes the leading and trailing code units that are
  white space or line terminators of ECMAScript: tab, line feed, vertical tab, form
  feed, carriage return, space, no-break space (U+00A0), the space separators U+1680,
  U+2000 to U+200A, U+202F, U+205F and U+3000, the line and paragraph separators
  U+2028 and U+2029, and the byte order mark U+FEFF. All of them are single code units.
\<close>

definition is_space :: "code_unit \<Rightarrow> bool" where
  "is_space c =
     (c \<in> set [0x0009, 0x000A, 0x000B, 0x000C, 0x000D, 0x0020, 0x00A0, 0x1680,
                0x2000, 0x2001, 0x2002, 0x2003, 0x2004, 0x2005, 0x2006, 0x2007,
                0x2008, 0x2009, 0x200A, 0x2028, 0x2029, 0x202F, 0x205F, 0x3000, 0xFEFF])"

definition trim :: "jstring \<Rightarrow> jstring" where
  "trim s = rev (dropWhile is_space (rev (dropWhile is_space s)))"

section \<open>Data preparation\<close>

text \<open>
  The objects \<^verbatim>\<open>_prepareContext\<close> builds with the spread syntax: all fields of the
  front (of the danger), then \<^verbatim>\<open>expanded\<close>, and for a front its \<^verbatim>\<open>dangers\<close>
  replaced by their views.
\<close>

record danger_view =
  dv_danger :: danger
  dv_expanded :: bool

record front_view =
  fv_front :: front
  fv_expanded :: bool
  fv_dangers :: "danger_view list"

record render_context =
  ctx_fronts :: "front_view list"
  ctx_loading :: bool
  ctx_error :: "jstring option"

text \<open>
  \<^verbatim>\<open>_prepareContext\<close> fetches first when there is no document and no fetch is
  running; \<open>r\<close> is what that request resolves to.
\<close>

definition prepareContext :: "response \<Rightarrow> state \<Rightarrow> render_context \<times> state" where
  "prepareContext r st =
     (let st1 = (if frontsData st = None \<and> \<not> loading st then fetchFronts r st else st);
          fronts_view =
            map (\<lambda>front.
                  \<lparr>fv_front = front,
                   fv_expanded = (front_id front \<in> expandedFronts st1),
                   fv_dangers =
                     map (\<lambda>danger.
                            \<lparr>dv_danger = danger,
                             dv_expanded = (danger_id danger \<in> expandedDangers st1)\<rparr>)
                       (dangers front)\<rparr>)
              (fronts_or_empty st1)
      in (\<lparr>ctx_fronts = fronts_view, ctx_loading = loading st1, ctx_error = error st1\<rparr>, st1))"

section \<open>Event handling\<close>

text \<open>
  Each handler below is one listener of \<^verbatim>\<open>_onRender\<close>, named after its
  \<^verbatim>\<open>data-action\<close>; its arguments are the \<^verbatim>\<open>data-*\<close> attributes of the clicked
  element, what the user entered in the dialog it opens, and what the two requests it
  may issue resolve to (\<open>sr\<close> for the save, \<open>fr\<close> for the fetch). A handler runs from
  the click to the end of the dialog's callback without another handler in between: a
  reference taken at the click still points into the current document when the
  callback assigns through it (the callbacks of a dialog that is submitted in a later
  state are given further down). The two toggles the server computes
  (\<^verbatim>\<open>#toggleSecret\<close>, \<^verbatim>\<open>#togglePortent\<close>) mutate nothing locally and are left out.
\<close>

definition onToggleFront :: "bool \<Rightarrow> jstring \<Rightarrow> state \<Rightarrow> state" where
  "onToggleFront on_icon_btn frontId st =
     (if on_icon_btn then st
      else render (st\<lparr>expandedFronts :=
             (if frontId \<in> expandedFronts st then expandedFronts st - {frontId}
              else insert frontId (expandedFronts st))\<rparr>))"

definition onToggleDanger :: "jstring \<Rightarrow> state \<Rightarrow> state" where
  "onToggleDanger dangerId st =
     render (st\<lparr>expandedDangers :=
       (if dangerId \<in> expandedDangers st then expandedDangers st - {dangerId}
        else insert dangerId (expandedDangers st))\<rparr>)"

definition onRefresh :: "response \<Rightarrow> state \<Rightarrow> state" where
  "onRefresh fr st =
     notify_info (js ''Fronten aktualisiert'') (render (fetchFronts fr (st\<lparr>frontsData := None\<rparr>)))"

text \<open>
  The three statements that end every mutating handler:
  \<^verbatim>\<open>await this.#saveFronts(); await this.#fetchFronts(); this.render();\<close>.
  The value \<^verbatim>\<open>#saveFronts\<close> returns is not used.
\<close>

definition saveFetchRender :: "response \<Rightarrow> response \<Rightarrow> state \<Rightarrow> state" where
  "saveFetchRender sr fr st = render (fetchFronts fr (snd (saveFronts sr st)))"

text \<open>
  \<^verbatim>\<open>#showEditTextDialog\<close>, its Save button pressed with \<open>raw\<close> in the text area. The
  title and the initial text only fill the dialog.
\<close>

definition showEditTextDialog :: "jstring \<Rightarrow> (jstring \<Rightarrow> state \<Rightarrow> state) \<Rightarrow> state \<Rightarrow> state" where
  "showEditTextDialog raw onSave st =
     (let v = trim raw
      in if v \<noteq> [] then notify_info (js ''Gespeichert'') (onSave v st) else st)"

subsection \<open>Front-level fields, cast and stakes\<close>

definition onEditFrontName :: "jstring \<Rightarrow> jstring \<Rightarrow> response \<Rightarrow> response \<Rightarrow> state \<Rightarrow> state" where
  "onEditFrontName frontId raw sr fr st =
     showEditTextDialog raw
       (\<lambda>newValue s.
          case getFront s frontId of
            None \<Rightarrow> s
          | Some front \<Rightarrow>
              saveFetchRender sr fr (modifyFront frontId (\<lambda>f. f\<lparr>front_name := newValue\<rparr>) s)) st"

definition onAddCast :: "jstring \<Rightarrow> jstring \<Rightarrow> response \<Rightarrow> response \<Rightarrow> state \<Rightarrow> state" where
  "onAddCast frontId raw sr fr st =
     showEditTextDialog raw
       (\<lambda>newValue s.
          case getFront s frontId of
            None \<Rightarrow> s
          | Some front \<Rightarrow>
              saveFetchRender sr fr
                (modifyFront frontId
                   (\<lambda>f. f\<lparr>cast := Some ((case cast f of None \<Rightarrow> [] | Some c \<Rightarrow> c) @ [Some newValue])\<rparr>)
                   s)) st"

definition onEditCast :: "jstring \<Rightarrow> nat \<Rightarrow> jstring \<Rightarrow> response \<Rightarrow> response \<Rightarrow> state \<Rightarrow> state" where
  "onEditCast frontId index raw sr fr st =
     (let front = getFront st frontId
      in showEditTextDialog raw
           (\<lambda>newValue s.
              case front of
                None \<Rightarrow> s
              | Some f0 \<Rightarrow>
                  (case cast f0 of
                     None \<Rightarrow> s
                   | Some c0 \<Rightarrow>
                       saveFetchRender sr fr
                         (modifyFront frontId
                            (\<lambda>f. f\<lparr>cast := map_option (\<lambda>c. assign_index c index newValue) (cast f)\<rparr>)
                            s))) st)"

definition onDeleteCast :: "jstring \<Rightarrow> nat \<Rightarrow> response \<Rightarrow> response \<Rightarrow> state \<Rightarrow> state" where
  "onDeleteCast frontId index sr fr st =
     (case getFront st frontId of
        None \<Rightarrow> st
      | Some f0 \<Rightarrow>
          (case cast f0 of
             None \<Rightarrow> st
           | Some c0 \<Rightarrow>
               saveFetchRender sr fr
                 (modifyFront frontId
                    (\<lambda>f. f\<lparr>cast := map_option (\<lambda>c. splice1 c index) (cast f)\<rparr>) st)))"

definition onAddStake :: "jstring \<Rightarrow> jstring \<Rightarrow> response \<Rightarrow> response \<Rightarrow> state \<Rightarrow> state" where
  "onAddStake frontId raw sr fr st =
     showEditTextDialog raw
       (\<lambda>newValue s.
          case getFront s frontId of
            None \<Rightarrow> s
          | Some front \<Rightarrow>
              saveFetchRender sr fr
                (modifyFront frontId
                   (\<lambda>f. f\<lparr>stakes := Some ((case stakes f of None \<Rightarrow> [] | Some c \<Rightarrow> c) @ [Some newValue])\<rparr>)
                   s)) st"

definition onEditStake :: "jstring \<Rightarrow> nat \<Rightarrow> jstring \<Rightarrow> response \<Rightarrow> response \<Rightarrow> state \<Rightarrow> state" where
  "onEditStake frontId index raw sr fr st =
     (let front = getFront st frontId
      in showEditTextDialog raw
           (\<lambda>newValue s.
              case front of
                None \<Rightarrow> s
              | Some f0 \<Rightarrow>
                  (case stakes f0 of
                     None \<Rightarrow> s
                   | Some c0 \<Rightarrow>
                       saveFetchRender sr fr
                         (modifyFront frontId
                            (\<lambda>f. f\<lparr>stakes := map_option (\<lambda>c. assign_index c index newValue) (stakes f)\<rparr>)
                            s))) st)"

definition onDeleteStake :: "jstring \<Rightarrow> nat \<Rightarrow> response \<Rightarrow> response \<Rightarrow> state \<Rightarrow> state" where
  "onDeleteStake frontId index sr fr st =
     (case getFront st frontId of
        None \<Rightarrow> st
      | Some f0 \<Rightarrow>
          (case stakes f0 of
             None \<Rightarrow> st
           | Some c0 \<Rightarrow>
               saveFetchRender sr fr
                 (modifyFront frontId
                    (\<lambda>f. f\<lparr>stakes := map_option (\<lambda>c. splice1 c index) (stakes f)\<rparr>) st)))"

subsection \<open>Dangers\<close>

text \<open>
  The form fields of the dialogs that are \<^verbatim>\<open>select\<close> elements, with the values of
  their options; \<^verbatim>\<open>parseInt\<close> reads the experience value.
\<close>

datatype front_type_option = Campaign | Adventure

definition front_type_value :: "front_type_option \<Rightarrow> jstring" where
  "front_type_value t = (case t of Campaign \<Rightarrow> (js ''campaign'') | Adventure \<Rightarrow> (js ''adventure''))"

datatype xp_option = XP20 | XP30 | XP50

definition xp_value :: "xp_option \<Rightarrow> int" where
  "xp_value x = (case x of XP20 \<Rightarrow> 20 | XP30 \<Rightarrow> 30 | XP50 \<Rightarrow> 50)"

text \<open>
  \<^verbatim>\<open>#showAddDangerDialog\<close>, its Create button pressed with the four raw field
  values; \<^verbatim>\<open>a || b\<close> on strings takes \<open>b\<close> when \<open>a\<close> is empty.
\<close>

definition showAddDangerDialog ::
  "jstring \<Rightarrow> jstring \<Rightarrow> jstring \<Rightarrow> jstring \<Rightarrow> jstring \<Rightarrow> nat \<Rightarrow> jstring \<Rightarrow>
   response \<Rightarrow> response \<Rightarrow> state \<Rightarrow> state" where
  "showAddDangerDialog frontId name_raw type_raw impulse_raw doom_raw now rnd sr fr st =
     (let name = trim name_raw;
          dtype = trim type_raw;
          imp = trim impulse_raw;
          doom = trim doom_raw
      in if name \<noteq> [] then
           (case getFront st frontId of
              None \<Rightarrow> st
            | Some front \<Rightarrow>
                (let newDanger =
                       \<lparr>danger_id = generateId (js ''danger'') now rnd,
                        danger_name = name,
                        dangerType = (if dtype \<noteq> [] then dtype else (js ''Unknown'')),
                        impulse = (if imp \<noteq> [] then imp else (js ''to cause chaos'')),
                        impendingDoom = (if doom \<noteq> [] then doom else (js ''Destruction'')),
                        grimPortents = Some [],
                        secrets = Some [],
                        locations = Some []\<rparr>;
                     st1 = modifyFront frontId (\<lambda>f. f\<lparr>dangers := dangers f @ [newDanger]\<rparr>) st;
                     st2 = fetchFronts fr (snd (saveFronts sr st1));
                     st3 = st2\<lparr>expandedDangers := insert (danger_id newDanger) (expandedDangers st2)\<rparr>
                 in notify_info ((js ''Danger '') @ js [CHR 0x22] @ name @ js [CHR 0x22] @ (js '' erstellt''))
                      (render st3)))
         else st)"

text \<open>
  \<^verbatim>\<open>#showEditDangerDialog\<close>: no dialog when the danger is not found; otherwise its
  Save button pressed with the four raw field values.
\<close>

definition showEditDangerDialog ::
  "jstring \<Rightarrow> jstring \<Rightarrow> jstring \<Rightarrow> jstring \<Rightarrow> jstring \<Rightarrow> response \<Rightarrow> response \<Rightarrow> state \<Rightarrow> state" where
  "showEditDangerDialog dangerId name_raw type_raw impulse_raw doom_raw sr fr st =
     (case getDanger st dangerId of
        None \<Rightarrow> st
      | Some result \<Rightarrow>
          notify_info (js ''Danger aktualisiert'')
            (saveFetchRender sr fr
               (modifyDanger dangerId
                  (\<lambda>d. d\<lparr>danger_name := trim name_raw,
                         dangerType := trim type_raw,
                         impulse := trim impulse_raw,
                         impendingDoom := trim doom_raw\<rparr>) st)))"

text \<open>\<open>confirmed\<close> is what \<^verbatim>\<open>Dialog.confirm\<close> resolved to.\<close>

definition onDeleteDanger ::
  "jstring \<Rightarrow> jstring \<Rightarrow> bool \<Rightarrow> response \<Rightarrow> response \<Rightarrow> state \<Rightarrow> state" where
  "onDeleteDanger frontId dangerId confirmed sr fr st =
     (if confirmed then
        (case getFront st frontId of
           None \<Rightarrow> st
         | Some front \<Rightarrow>
             saveFetchRender sr fr
               (modifyFront frontId
                  (\<lambda>f. f\<lparr>dangers := filter (\<lambda>d. danger_id d \<noteq> dangerId) (dangers f)\<rparr>) st))
      else st)"

definition onEditImpulse :: "jstring \<Rightarrow> jstring \<Rightarrow> response \<Rightarrow> response \<Rightarrow> state \<Rightarrow> state" where
  "onEditImpulse dangerId raw sr fr st =
     (let result = getDanger st dangerId
      in showEditTextDialog raw
           (\<lambda>newValue s.
              case result of
                None \<Rightarrow> s
              | Some r \<Rightarrow>
                  saveFetchRender sr fr (modifyDanger dangerId (\<lambda>d. d\<lparr>impulse := newValue\<rparr>) s)) st)"

definition onEditDoom :: "jstring \<Rightarrow> jstring \<Rightarrow> response \<Rightarrow> response \<Rightarrow> state \<Rightarrow> state" where
  "onEditDoom dangerId raw sr fr st =
     (let result = getDanger st dangerId
      in showEditTextDialog raw
           (\<lambda>newValue s.
              case result of
                None \<Rightarrow> s
              | Some r \<Rightarrow>
                  saveFetchRender sr fr
                    (modifyDanger dangerId (\<lambda>d. d\<lparr>impendingDoom := newValue\<rparr>) s)) st)"

subsection \<open>Grim portents\<close>

definition onAddPortent ::
  "jstring \<Rightarrow> jstring \<Rightarrow> nat \<Rightarrow> jstring \<Rightarrow> response \<Rightarrow> response \<Rightarrow> state \<Rightarrow> state" where
  "onAddPortent dangerId raw now rnd sr fr st =
     showEditTextDialog raw
       (\<lambda>newValue s.
          case getDanger s dangerId of
            None \<Rightarrow> s
          | Some r \<Rightarrow>
              saveFetchRender sr fr
                (modifyDanger dangerId
                   (\<lambda>d. d\<lparr>grimPortents :=
                            Some ((case grimPortents d of None \<Rightarrow> [] | Some ps \<Rightarrow> ps) @
                                  [\<lparr>portent_id = generateId (js ''portent'') now rnd,
                                    portent_text = newValue,
                                    completed = False\<rparr>])\<rparr>) s)) st"

definition onEditPortent ::
  "jstring \<Rightarrow> jstring \<Rightarrow> jstring \<Rightarrow> response \<Rightarrow> response \<Rightarrow> state \<Rightarrow> state" where
  "onEditPortent dangerId portentId raw sr fr st =
     (let portent =
            (case getDanger st dangerId of
               None \<Rightarrow> None
             | Some (front, danger) \<Rightarrow>
                 (case grimPortents danger of
                    None \<Rightarrow> None
                  | Some ps \<Rightarrow> find (\<lambda>p. portent_id p = portentId) ps))
      in showEditTextDialog raw
           (\<lambda>newValue s.
              case portent of
                None \<Rightarrow> s
              | Some p0 \<Rightarrow>
                  saveFetchRender sr fr
                    (modifyDanger dangerId
                       (\<lambda>d. d\<lparr>grimPortents :=
                                map_option
                                  (modify_first (\<lambda>p. portent_id p = portentId)
                                     (\<lambda>p. p\<lparr>portent_text := newValue\<rparr>))
                                  (grimPortents d)\<rparr>) s)) st)"

definition onDeletePortent ::
  "jstring \<Rightarrow> jstring \<Rightarrow> response \<Rightarrow> response \<Rightarrow> state \<Rightarrow> state" where
  "onDeletePortent dangerId portentId sr fr st =
     (case getDanger st dangerId of
        None \<Rightarrow> st
      | Some (front, danger) \<Rightarrow>
          (case grimPortents danger of
             None \<Rightarrow> st
           | Some ps0 \<Rightarrow>
               saveFetchRender sr fr
                 (modifyDanger dangerId
                    (\<lambda>d. d\<lparr>grimPortents :=
                             map_option (filter (\<lambda>p. portent_id p \<noteq> portentId)) (grimPortents d)\<rparr>)
                    st)))"

subsection \<open>Secrets\<close>

definition showAddSecretDialog ::
  "jstring \<Rightarrow> xp_option \<Rightarrow> jstring \<Rightarrow> nat \<Rightarrow> jstring \<Rightarrow> response \<Rightarrow> response \<Rightarrow> state \<Rightarrow> state" where
  "showAddSecretDialog dangerId xp_choice text_in now rnd sr fr st =
     (let xpv = xp_value xp_choice;
          txt = trim text_in
      in if txt \<noteq> [] then
           (case getDanger st dangerId of
              None \<Rightarrow> st
            | Some r \<Rightarrow>
                notify_info (js ''Secret erstellt'')
                  (saveFetchRender sr fr
                     (modifyDanger dangerId
                        (\<lambda>d. d\<lparr>secrets :=
                                 Some ((case secrets d of None \<Rightarrow> [] | Some ss \<Rightarrow> ss) @
                                       [\<lparr>secret_id = generateId (js ''secret'') now rnd,
                                         xp = xpv,
                                         secret_text = txt,
                                         revealed = False,
                                         revealedAt = None\<rparr>])\<rparr>) st)))
         else st)"

text \<open>
  \<^verbatim>\<open>#showEditSecretDialog\<close> receives the secret object the click handler found (or
  \<^verbatim>\<open>undefined\<close>) and assigns to it.
\<close>

definition showEditSecretDialog ::
  "jstring \<Rightarrow> secret option \<Rightarrow> xp_option \<Rightarrow> jstring \<Rightarrow> response \<Rightarrow> response \<Rightarrow> state \<Rightarrow> state" where
  "showEditSecretDialog dangerId secret xp_choice text_in sr fr st =
     (case secret of
        None \<Rightarrow> st
      | Some s0 \<Rightarrow>
          notify_info (js ''Secret aktualisiert'')
            (saveFetchRender sr fr
               (modifyDanger dangerId
                  (\<lambda>d. d\<lparr>secrets :=
                           map_option
                             (modify_first (\<lambda>s. secret_id s = secret_id s0)
                                (\<lambda>s. s\<lparr>xp := xp_value xp_choice, secret_text := trim text_in\<rparr>))
                             (secrets d)\<rparr>) st)))"

definition onEditSecret ::
  "jstring \<Rightarrow> jstring \<Rightarrow> xp_option \<Rightarrow> jstring \<Rightarrow> response \<Rightarrow> response \<Rightarrow> state \<Rightarrow> state" where
  "onEditSecret dangerId secretId xp_choice text_in sr fr st =
     (let secret =
            (case getDanger st dangerId of
               None \<Rightarrow> None
             | Some (front, danger) \<Rightarrow>
                 (case secrets danger of
                    None \<Rightarrow> None
                  | Some ss \<Rightarrow> find (\<lambda>s. secret_id s = secretId) ss))
      in showEditSecretDialog dangerId secret xp_choice text_in sr fr st)"

definition onDeleteSecret ::
  "jstring \<Rightarrow> jstring \<Rightarrow> response \<Rightarrow> response \<Rightarrow> state \<Rightarrow> state" where
  "onDeleteSecret dangerId secretId sr fr st =
     (case getDanger st dangerId of
        None \<Rightarrow> st
      | Some (front, danger) \<Rightarrow>
          (case secrets danger of
             None \<Rightarrow> st
           | Some ss0 \<Rightarrow>
               saveFetchRender sr fr
                 (modifyDanger dangerId
                    (\<lambda>d. d\<lparr>secrets :=
                             map_option (filter (\<lambda>s. secret_id s \<noteq> secretId)) (secrets d)\<rparr>)
                    st)))"

subsection \<open>Locations\<close>

definition onAddLocation :: "jstring \<Rightarrow> jstring \<Rightarrow> response \<Rightarrow> response \<Rightarrow> state \<Rightarrow> state" where
  "onAddLocation dangerId raw sr fr st =
     showEditTextDialog raw
       (\<lambda>newValue s.
          case getDanger s dangerId of
            None \<Rightarrow> s
          | Some r \<Rightarrow>
              saveFetchRender sr fr
                (modifyDanger dangerId
                   (\<lambda>d. d\<lparr>locations :=
                            Some ((case locations d of None \<Rightarrow> [] | Some ls \<Rightarrow> ls) @ [Some newValue])\<rparr>)
                   s)) st"

definition onEditLocation ::
  "jstring \<Rightarrow> nat \<Rightarrow> jstring \<Rightarrow> response \<Rightarrow> response \<Rightarrow> state \<Rightarrow> state" where
  "onEditLocation dangerId index raw sr fr st =
     (let result = getDanger st dangerId
      in showEditTextDialog raw
           (\<lambda>newValue s.
              case result of
                None \<Rightarrow> s
              | Some (front, danger) \<Rightarrow>
                  (case locations danger of
                     None \<Rightarrow> s
                   | Some ls0 \<Rightarrow>
                       saveFetchRender sr fr
                         (modifyDanger dangerId
                            (\<lambda>d. d\<lparr>locations :=
                                     map_option (\<lambda>ls. assign_index ls index newValue) (locations d)\<rparr>)
                            s))) st)"

definition onDeleteLocation ::
  "jstring \<Rightarrow> nat \<Rightarrow> response \<Rightarrow> response \<Rightarrow> state \<Rightarrow> state" where
  "onDeleteLocation dangerId index sr fr st =
     (case getDanger st dangerId of
        None \<Rightarrow> st
      | Some (front, danger) \<Rightarrow>
          (case locations danger of
             None \<Rightarrow> st
           | Some ls0 \<Rightarrow>
               saveFetchRender sr fr
                 (modifyDanger dangerId
                    (\<lambda>d. d\<lparr>locations := map_option (\<lambda>ls. splice1 ls index) (locations d)\<rparr>) st)))"

subsection \<open>Fronts\<close>

text \<open>
  \<^verbatim>\<open>#showAddFrontDialog\<close>. \<^verbatim>\<open>this.#frontsData.fronts.push(newFront)\<close> is not guarded:
  without a document, or without its \<^verbatim>\<open>fronts\<close> array, the callback ends in a
  \<^verbatim>\<open>TypeError\<close> nobody catches.
\<close>

definition undefined_push_message :: jstring where
  "undefined_push_message =
     (js ''Cannot read properties of undefined (reading '') @ js [CHR 0x27] @ (js ''push'') @ js [CHR 0x27] @ (js '')'')"

definition uncaught :: "jstring \<Rightarrow> state \<Rightarrow> state" where
  "uncaught m st = st\<lparr>effects := effects st @ [Uncaught m]\<rparr>"

definition showAddFrontDialog ::
  "jstring \<Rightarrow> front_type_option \<Rightarrow> nat \<Rightarrow> jstring \<Rightarrow> response \<Rightarrow> response \<Rightarrow> state \<Rightarrow> state" where
  "showAddFrontDialog name_raw type_choice now rnd sr fr st =
     (let name = trim name_raw;
          type = front_type_value type_choice
      in if name \<noteq> [] then
           (let newFront =
                  \<lparr>front_id = generateId (js ''front'') now rnd,
                   front_name = name,
                   front_type = type,
                   cast = Some [],
                   stakes = Some [],
                   playerHooks = Some [],
                   dangers = []\<rparr>
            in case frontsData st of
                 None \<Rightarrow> uncaught null_fronts_message st
               | Some d \<Rightarrow>
                   (case fronts d of
                      None \<Rightarrow> uncaught undefined_push_message st
                    | Some fs0 \<Rightarrow>
                        (let st1 = modifyFronts (\<lambda>fs. fs @ [newFront]) st;
                             st2 = fetchFronts fr (snd (saveFronts sr st1));
                             st3 = st2\<lparr>expandedFronts := insert (front_id newFront) (expandedFronts st2)\<rparr>
                         in notify_info ((js ''Front '') @ js [CHR 0x22] @ name @ js [CHR 0x22] @ (js '' erstellt''))
                              (render st3))))
         else st)"

section \<open>The mutating actions\<close>

text \<open>
  One constructor for each mutating action the window offers, with the arguments of its
  handler; \<open>perform\<close> runs the handler.
\<close>

datatype action =
  AddFront jstring front_type_option nat jstring
  | EditFrontName jstring jstring
  | AddCast jstring jstring
  | EditCast jstring nat jstring
  | DeleteCast jstring nat
  | AddStake jstring jstring
  | EditStake jstring nat jstring
  | DeleteStake jstring nat
  | AddDanger jstring jstring jstring jstring jstring nat jstring
  | EditDanger jstring jstring jstring jstring jstring
  | DeleteDanger jstring jstring bool
  | EditImpulse jstring jstring
  | EditDoom jstring jstring
  | AddPortent jstring jstring nat jstring
  | EditPortent jstring jstring jstring
  | DeletePortent jstring jstring
  | AddSecret jstring xp_option jstring nat jstring
  | EditSecret jstring jstring xp_option jstring
  | DeleteSecret jstring jstring
  | AddLocation jstring jstring
  | EditLocation jstring nat jstring
  | DeleteLocation jstring nat

fun perform :: "action \<Rightarrow> response \<Rightarrow> response \<Rightarrow> state \<Rightarrow> state" where
  "perform (AddFront name_raw type_choice now rnd) sr fr st =
     showAddFrontDialog name_raw type_choice now rnd sr fr st"
| "perform (EditFrontName frontId raw) sr fr st = onEditFrontName frontId raw sr fr st"
| "perform (AddCast frontId raw) sr fr st = onAddCast frontId raw sr fr st"
| "perform (EditCast frontId index raw) sr fr st = onEditCast frontId index raw sr fr st"
| "perform (DeleteCast frontId index) sr fr st = onDeleteCast frontId index sr fr st"
| "perform (AddStake frontId raw) sr fr st = onAddStake frontId raw sr fr st"
| "perform (EditStake frontId index raw) sr fr st = onEditStake frontId index raw sr fr st"
| "perform (DeleteStake frontId index) sr fr st = onDeleteStake frontId index sr fr st"
| "perform (AddDanger frontId name_raw type_raw impulse_raw doom_raw now rnd) sr fr st =
     showAddDangerDialog frontId name_raw type_raw impulse_raw doom_raw now rnd sr fr st"
| "perform (EditDanger dangerId name_raw type_raw impulse_raw doom_raw) sr fr st =
     showEditDangerDialog dangerId name_raw type_raw impulse_raw doom_raw sr fr st"
| "perform (DeleteDanger frontId dangerId confirmed) sr fr st =
     onDeleteDanger frontId dangerId confirmed sr fr st"
| "perform (EditImpulse dangerId raw) sr fr st = onEditImpulse dangerId raw sr fr st"
| "perform (EditDoom dangerId raw) sr fr st = onEditDoom dangerId raw sr fr st"
| "perform (AddPortent dangerId raw now rnd) sr fr st = onAddPortent dangerId raw now rnd sr fr st"
| "perform (EditPortent dangerId portentId raw) sr fr st =
     onEditPortent dangerId portentId raw sr fr st"
| "perform (DeletePortent dangerId portentId) sr fr st = onDeletePortent dangerId portentId sr fr st"
| "perform (AddSecret dangerId xp_choice text_in now rnd) sr fr st =
     showAddSecretDialog dangerId xp_choice text_in now rnd sr fr st"
| "perform (EditSecret dangerId secretId xp_choice text_in) sr fr st =
     onEditSecret dangerId secretId xp_choice text_in sr fr st"
| "perform (DeleteSecret dangerId secretId) sr fr st = onDeleteSecret dangerId secretId sr fr st"
| "perform (AddLocation dangerId raw) sr fr st = onAddLocation dangerId raw sr fr st"
| "perform (EditLocation dangerId index raw) sr fr st = onEditLocation dangerId index raw sr fr st"
| "perform (DeleteLocation dangerId index) sr fr st = onDeleteLocation dangerId index sr fr st"

text \<open>The events a run from \<open>st\<close> to \<open>st'\<close> added to the record of effects.\<close>

definition issued :: "state \<Rightarrow> state \<Rightarrow> event list" where
  "issued st st' = drop (length (effects st)) (effects st')"

section \<open>Dialogs that close over a reference\<close>

text \<open>
  Eight click handlers look their object up before they open the dialog: edit-cast and
  edit-stake bind \<^verbatim>\<open>front\<close>, edit-impulse, edit-doom, edit-location and the dialog that
  edits a danger bind \<^verbatim>\<open>result\<close>, edit-portent binds \<^verbatim>\<open>portent\<close>, edit-secret binds
  \<^verbatim>\<open>secret\<close>. The callback of the dialog closes over that variable and runs when the
  dialog is submitted; by then the document may have been replaced or changed.

  What a callback can observe of a reference is the object as it is when the callback
  runs, and the place the object has in the current document, if it still has one:
  the index of its front, of its danger in that front, of the portent or secret in
  that danger. For a reference with a place, the object is the element of the document
  at that place. Assigning through a reference changes the document at that place;
  when the object has left the document, the assignment changes nothing that is saved.
\<close>

record ('a, 'p) reference =
  ref_object :: 'a
  ref_place :: "'p option"

definition modify_at :: "nat \<Rightarrow> ('a \<Rightarrow> 'a) \<Rightarrow> 'a list \<Rightarrow> 'a list" where
  "modify_at k g xs = (if k < length xs then xs[k := g (xs ! k)] else xs)"

definition assign_front :: "nat option \<Rightarrow> (front \<Rightarrow> front) \<Rightarrow> state \<Rightarrow> state" where
  "assign_front place g st =
     (case place of
        None \<Rightarrow> st
      | Some k \<Rightarrow> modifyFronts (modify_at k g) st)"

definition assign_danger :: "(nat \<times> nat) option \<Rightarrow> (danger \<Rightarrow> danger) \<Rightarrow> state \<Rightarrow> state" where
  "assign_danger place g st =
     (case place of
        None \<Rightarrow> st
      | Some (k, l) \<Rightarrow>
          modifyFronts (modify_at k (\<lambda>f. f\<lparr>dangers := modify_at l g (dangers f)\<rparr>)) st)"

definition assign_portent ::
  "(nat \<times> nat \<times> nat) option \<Rightarrow> (portent \<Rightarrow> portent) \<Rightarrow> state \<Rightarrow> state" where
  "assign_portent place g st =
     (case place of
        None \<Rightarrow> st
      | Some (k, l, m) \<Rightarrow>
          assign_danger (Some (k, l))
            (\<lambda>d. d\<lparr>grimPortents := map_option (modify_at m g) (grimPortents d)\<rparr>) st)"

definition assign_secret ::
  "(nat \<times> nat \<times> nat) option \<Rightarrow> (secret \<Rightarrow> secret) \<Rightarrow> state \<Rightarrow> state" where
  "assign_secret place g st =
     (case place of
        None \<Rightarrow> st
      | Some (k, l, m) \<Rightarrow>
          assign_danger (Some (k, l))
            (\<lambda>d. d\<lparr>secrets := map_option (modify_at m g) (secrets d)\<rparr>) st)"

text \<open>
  The variables a click handler may bind, \<open>None\<close> for \<^verbatim>\<open>undefined\<close> or \<^verbatim>\<open>null\<close> and for
  a variable the handler does not have. At the click, a reference points at the first
  match of \<^verbatim>\<open>find\<close>, whose index \<open>first_index\<close> gives.
\<close>

record closure =
  c_front :: "(front, nat) reference option"
  c_result :: "(danger, nat \<times> nat) reference option"
  c_portent :: "(portent, nat \<times> nat \<times> nat) reference option"
  c_secret :: "(secret, nat \<times> nat \<times> nat) reference option"

definition no_reference :: closure where
  "no_reference = \<lparr>c_front = None, c_result = None, c_portent = None, c_secret = None\<rparr>"

definition first_index :: "('a \<Rightarrow> bool) \<Rightarrow> 'a list \<Rightarrow> nat" where
  "first_index P xs = length (takeWhile (\<lambda>x. \<not> P x) xs)"

definition click_front :: "state \<Rightarrow> jstring \<Rightarrow> (front, nat) reference option" where
  "click_front st frontId =
     (case getFront st frontId of
        None \<Rightarrow> None
      | Some f \<Rightarrow>
          Some \<lparr>ref_object = f,
                ref_place = Some (first_index (\<lambda>f. front_id f = frontId) (fronts_or_empty st))\<rparr>)"

definition danger_place :: "state \<Rightarrow> jstring \<Rightarrow> nat \<times> nat" where
  "danger_place st dangerId =
     (let k = first_index (\<lambda>f. find (\<lambda>d. danger_id d = dangerId) (dangers f) \<noteq> None)
                (fronts_or_empty st)
      in (k, first_index (\<lambda>d. danger_id d = dangerId) (dangers (fronts_or_empty st ! k))))"

definition click_danger :: "state \<Rightarrow> jstring \<Rightarrow> (danger, nat \<times> nat) reference option" where
  "click_danger st dangerId =
     (case getDanger st dangerId of
        None \<Rightarrow> None
      | Some (front, danger) \<Rightarrow>
          Some \<lparr>ref_object = danger, ref_place = Some (danger_place st dangerId)\<rparr>)"

definition click_portent ::
  "state \<Rightarrow> jstring \<Rightarrow> jstring \<Rightarrow> (portent, nat \<times> nat \<times> nat) reference option" where
  "click_portent st dangerId portentId =
     (case getDanger st dangerId of
        None \<Rightarrow> None
      | Some (front, danger) \<Rightarrow>
          (case grimPortents danger of
             None \<Rightarrow> None
           | Some ps \<Rightarrow>
               (case find (\<lambda>p. portent_id p = portentId) ps of
                  None \<Rightarrow> None
                | Some p \<Rightarrow>
                    Some \<lparr>ref_object = p,
                          ref_place =
                            Some (fst (danger_place st dangerId), snd (danger_place st dangerId),
                                  first_index (\<lambda>p. portent_id p = portentId) ps)\<rparr>)))"

definition click_secret ::
  "state \<Rightarrow> jstring \<Rightarrow> jstring \<Rightarrow> (secret, nat \<times> nat \<times> nat) reference option" where
  "click_secret st dangerId secretId =
     (case getDanger st dangerId of
        None \<Rightarrow> None
      | Some (front, danger) \<Rightarrow>
          (case secrets danger of
             None \<Rightarrow> None
           | Some ss \<Rightarrow>
               (case find (\<lambda>s. secret_id s = secretId) ss of
                  None \<Rightarrow> None
                | Some s \<Rightarrow>
                    Some \<lparr>ref_object = s,
                          ref_place =
                            Some (fst (danger_place st dangerId), snd (danger_place st dangerId),
                                  first_index (\<lambda>s. secret_id s = secretId) ss)\<rparr>)))"

text \<open>The callbacks of the eight dialogs, given the variable they close over.\<close>

definition onEditCast_callback ::
  "(front, nat) reference option \<Rightarrow> nat \<Rightarrow> jstring \<Rightarrow> response \<Rightarrow> response \<Rightarrow> state \<Rightarrow> state" where
  "onEditCast_callback front index raw sr fr st =
     showEditTextDialog raw
       (\<lambda>newValue s.
          case front of
            None \<Rightarrow> s
          | Some r \<Rightarrow>
              (case cast (ref_object r) of
                 None \<Rightarrow> s
               | Some c0 \<Rightarrow>
                   saveFetchRender sr fr
                     (assign_front (ref_place r)
                        (\<lambda>f. f\<lparr>cast := map_option (\<lambda>c. assign_index c index newValue) (cast f)\<rparr>)
                        s))) st"

definition onEditStake_callback ::
  "(front, nat) reference option \<Rightarrow> nat \<Rightarrow> jstring \<Rightarrow> response \<Rightarrow> response \<Rightarrow> state \<Rightarrow> state" where
  "onEditStake_callback front index raw sr fr st =
     showEditTextDialog raw
       (\<lambda>newValue s.
          case front of
            None \<Rightarrow> s
          | Some r \<Rightarrow>
              (case stakes (ref_object r) of
                 None \<Rightarrow> s
               | Some c0 \<Rightarrow>
                   saveFetchRender sr fr
                     (assign_front (ref_place r)
                        (\<lambda>f. f\<lparr>stakes := map_option (\<lambda>c. assign_index c index newValue) (stakes f)\<rparr>)
                        s))) st"

definition onEditImpulse_callback ::
  "(danger, nat \<times> nat) reference option \<Rightarrow> jstring \<Rightarrow> response \<Rightarrow> response \<Rightarrow> state \<Rightarrow> state" where
  "onEditImpulse_callback result raw sr fr st =
     showEditTextDialog raw
       (\<lambda>newValue s.
          case result of
            None \<Rightarrow> s
          | Some r \<Rightarrow>
              saveFetchRender sr fr
                (assign_danger (ref_place r) (\<lambda>d. d\<lparr>impulse := newValue\<rparr>) s)) st"

definition onEditDoom_callback ::
  "(danger, nat \<times> nat) reference option \<Rightarrow> jstring \<Rightarrow> response \<Rightarrow> response \<Rightarrow> state \<Rightarrow> state" where
  "onEditDoom_callback result raw sr fr st =
     showEditTextDialog raw
       (\<lambda>newValue s.
          case result of
            None \<Rightarrow> s
          | Some r \<Rightarrow>
              saveFetchRender sr fr
                (assign_danger (ref_place r) (\<lambda>d. d\<lparr>impendingDoom := newValue\<rparr>) s)) st"

definition onEditPortent_callback ::
  "(portent, nat \<times> nat \<times> nat) reference option \<Rightarrow> jstring \<Rightarrow> response \<Rightarrow> response \<Rightarrow>
   state \<Rightarrow> state" where
  "onEditPortent_callback portent raw sr fr st =
     showEditTextDialog raw
       (\<lambda>newValue s.
          case portent of
            None \<Rightarrow> s
          | Some r \<Rightarrow>
              saveFetchRender sr fr
                (assign_portent (ref_place r) (\<lambda>p. p\<lparr>portent_text := newValue\<rparr>) s)) st"

definition onEditLocation_callback ::
  "(danger, nat \<times> nat) reference option \<Rightarrow> nat \<Rightarrow> jstring \<Rightarrow> response \<Rightarrow> response \<Rightarrow>
   state \<Rightarrow> state" where
  "onEditLocation_callback result index raw sr fr st =
     showEditTextDialog raw
       (\<lambda>newValue s.
          case result of
            None \<Rightarrow> s
          | Some r \<Rightarrow>
              (case locations (ref_object r) of
                 None \<Rightarrow> s
               | Some ls0 \<Rightarrow>
                   saveFetchRender sr fr
                     (assign_danger (ref_place r)
                        (\<lambda>d. d\<lparr>locations :=
                                 map_option (\<lambda>ls. assign_index ls index newValue) (locations d)\<rparr>)
                        s))) st"

definition showEditDangerDialog_callback ::
  "(danger, nat \<times> nat) reference option \<Rightarrow> jstring \<Rightarrow> jstring \<Rightarrow> jstring \<Rightarrow> jstring \<Rightarrow>
   response \<Rightarrow> response \<Rightarrow> state \<Rightarrow> state" where
  "showEditDangerDialog_callback result name_raw type_raw impulse_raw doom_raw sr fr st =
     (case result of
        None \<Rightarrow> st
      | Some r \<Rightarrow>
          notify_info (js ''Danger aktualisiert'')
            (saveFetchRender sr fr
               (assign_danger (ref_place r)
                  (\<lambda>d. d\<lparr>danger_name := trim name_raw,
                         dangerType := trim type_raw,
                         impulse := trim impulse_raw,
                         impendingDoom := trim doom_raw\<rparr>) st)))"

definition showEditSecretDialog_callback ::
  "(secret, nat \<times> nat \<times> nat) reference option \<Rightarrow> xp_option \<Rightarrow> jstring \<Rightarrow>
   response \<Rightarrow> response \<Rightarrow> state \<Rightarrow> state" where
  "showEditSecretDialog_callback secret xp_choice text_in sr fr st =
     (case secret of
        None \<Rightarrow> st
      | Some r \<Rightarrow>
          notify_info (js ''Secret aktualisiert'')
            (saveFetchRender sr fr
               (assign_secret (ref_place r)
                  (\<lambda>s. s\<lparr>xp := xp_value xp_choice, secret_text := trim text_in\<rparr>) st)))"

text \<open>
  What the click of an action binds in state \<open>st\<close>, and the callback of the action run
  with a closure. The other actions bind nothing at the click; they look up when they
  run.
\<close>

fun click :: "action \<Rightarrow> state \<Rightarrow> closure" where
  "click (EditCast frontId index raw) st = no_reference\<lparr>c_front := click_front st frontId\<rparr>"
| "click (EditStake frontId index raw) st = no_reference\<lparr>c_front := click_front st frontId\<rparr>"
| "click (EditDanger dangerId name_raw type_raw impulse_raw doom_raw) st =
     no_reference\<lparr>c_result := click_danger st dangerId\<rparr>"
| "click (EditImpulse dangerId raw) st = no_reference\<lparr>c_result := click_danger st dangerId\<rparr>"
| "click (EditDoom dangerId raw) st = no_reference\<lparr>c_result := click_danger st dangerId\<rparr>"
| "click (EditLocation dangerId index raw) st = no_reference\<lparr>c_result := click_danger st dangerId\<rparr>"
| "click (EditPortent dangerId portentId raw) st =
     no_reference\<lparr>c_portent := click_portent st dangerId portentId\<rparr>"
| "click (EditSecret dangerId secretId xp_choice text_in) st =
     no_reference\<lparr>c_secret := click_secret st dangerId secretId\<rparr>"
| "click a st = no_reference"

fun callback :: "action \<Rightarrow> closure \<Rightarrow> response \<Rightarrow> response \<Rightarrow> state \<Rightarrow> state" where
  "callback (EditCast frontId index raw) c sr fr st = onEditCast_callback (c_front c) index raw sr fr st"
| "callback (EditStake frontId index raw) c sr fr st = onEditStake_callback (c_front c) index raw sr fr st"
| "callback (EditDanger dangerId name_raw type_raw impulse_raw doom_raw) c sr fr st =
     showEditDangerDialog_callback (c_result c) name_raw type_raw impulse_raw doom_raw sr fr st"
| "callback (EditImpulse dangerId raw) c sr fr st = onEditImpulse_callback (c_result c) raw sr fr st"
| "callback (EditDoom dangerId raw) c sr fr st = onEditDoom_callback (c_result c) raw sr fr st"
| "callback (EditLocation dangerId index raw) c sr fr st =
     onEditLocation_callback (c_result c) index raw sr fr st"
| "callback (EditPortent dangerId portentId raw) c sr fr st =
     onEditPortent_callback (c_portent c) raw sr fr st"
| "callback (EditSecret dangerId secretId xp_choice text_in) c sr fr st =
     showEditSecretDialog_callback (c_secret c) xp_choice text_in sr fr st"
| "callback a c sr fr st = perform a sr fr st"

section \<open>Vocabulary of the properties\<close>

text \<open>
  An event is informational when it is a \<^verbatim>\<open>ui.notifications.info\<close> message. The save
  requests among a list of events, by their payloads.
\<close>

definition is_info :: "event \<Rightarrow> bool" where
  "is_info e = (case e of NotifyInfo m \<Rightarrow> True | _ \<Rightarrow> False)"

definition saved_payloads :: "event list \<Rightarrow> front list option list" where
  "saved_payloads es = concat (map (\<lambda>e. case e of SaveCall p \<Rightarrow> [p] | _ \<Rightarrow> []) es)"

text \<open>
  The first danger with identifier \<open>j\<close> in document order, together with the front that
  owns it: no danger of an earlier front, and no earlier danger of the same front, has
  that identifier.
\<close>

definition first_danger :: "front list \<Rightarrow> jstring \<Rightarrow> front \<Rightarrow> danger \<Rightarrow> bool" where
  "first_danger fs j f d \<longleftrightarrow>
     (\<exists>pre post dpre dpost.
        fs = pre @ f # post \<and> (\<forall>g\<in>set pre. \<forall>e\<in>set (dangers g). danger_id e \<noteq> j) \<and>
        dangers f = dpre @ d # dpost \<and> danger_id d = j \<and> (\<forall>e\<in>set dpre. danger_id e \<noteq> j))"

text \<open>
  The two ways a handler run can end. It is \<open>abandoned\<close> when the state is as before but
  for informational notifications. It is \<open>persisted\<close> when it ran the sequence of save,
  fetch and render on a state \<open>stm\<close> that holds a document (the mutated state), followed at
  most by informational notifications.
\<close>

definition abandoned :: "state \<Rightarrow> state \<Rightarrow> bool" where
  "abandoned st st' \<longleftrightarrow> (\<exists>tail. list_all is_info tail \<and> st' = st\<lparr>effects := effects st @ tail\<rparr>)"

definition persisted :: "response \<Rightarrow> response \<Rightarrow> state \<Rightarrow> state \<Rightarrow> bool" where
  "persisted sr fr st st' \<longleftrightarrow>
     (\<exists>stm tail. frontsData stm \<noteq> None \<and> effects stm = effects st \<and> list_all is_info tail \<and>
        effects st' = effects (saveFetchRender sr fr stm) @ tail \<and>
        frontsData st' = frontsData (saveFetchRender sr fr stm))"

definition settled :: "response \<Rightarrow> response \<Rightarrow> state \<Rightarrow> state \<Rightarrow> bool" where
  "settled sr fr st st' \<longleftrightarrow> abandoned st st' \<or> persisted sr fr st st'"

text \<open>
  The accessor call a mutating action makes before it changes anything:
  \<^verbatim>\<open>#getFront(frontId)\<close> or \<^verbatim>\<open>#getDanger(dangerId)\<close>. Creating a front calls neither;
  deleting a danger calls \<^verbatim>\<open>#getFront\<close> only and removes the danger with \<^verbatim>\<open>filter\<close>. The
  eight actions of the previous section make the call at the click, the others when
  they run; \<open>lookup_state\<close> is the state the call is made in, \<open>st0\<close> being the state at
  the click and \<open>st\<close> the state in which the action runs.
\<close>

datatype lookup = NoLookup | FrontLookup jstring | DangerLookup jstring

fun lookup_of :: "action \<Rightarrow> lookup" where
  "lookup_of (AddFront name_raw type_choice now rnd) = NoLookup"
| "lookup_of (EditFrontName frontId raw) = FrontLookup frontId"
| "lookup_of (AddCast frontId raw) = FrontLookup frontId"
| "lookup_of (EditCast frontId index raw) = FrontLookup frontId"
| "lookup_of (DeleteCast frontId index) = FrontLookup frontId"
| "lookup_of (AddStake frontId raw) = FrontLookup frontId"
| "lookup_of (EditStake frontId index raw) = FrontLookup frontId"
| "lookup_of (DeleteStake frontId index) = FrontLookup frontId"
| "lookup_of (AddDanger frontId name_raw type_raw impulse_raw doom_raw now rnd) = FrontLookup frontId"
| "lookup_of (EditDanger dangerId name_raw type_raw impulse_raw doom_raw) = DangerLookup dangerId"
| "lookup_of (DeleteDanger frontId dangerId confirmed) = FrontLookup frontId"
| "lookup_of (EditImpulse dangerId raw) = DangerLookup dangerId"
| "lookup_of (EditDoom dangerId raw) = DangerLookup dangerId"
| "lookup_of (AddPortent dangerId raw now rnd) = DangerLookup dangerId"
| "lookup_of (EditPortent dangerId portentId raw) = DangerLookup dangerId"
| "lookup_of (DeletePortent dangerId portentId) = DangerLookup dangerId"
| "lookup_of (AddSecret dangerId xp_choice text_in now rnd) = DangerLookup dangerId"
| "lookup_of (EditSecret dangerId secretId xp_choice text_in) = DangerLookup dangerId"
| "lookup_of (DeleteSecret dangerId secretId) = DangerLookup dangerId"
| "lookup_of (AddLocation dangerId raw) = DangerLookup dangerId"
| "lookup_of (EditLocation dangerId index raw) = DangerLookup dangerId"
| "lookup_of (DeleteLocation dangerId index) = DangerLookup dangerId"

fun looks_up_at_click :: "action \<Rightarrow> bool" where
  "looks_up_at_click (EditCast frontId index raw) = True"
| "looks_up_at_click (EditStake frontId index raw) = True"
| "looks_up_at_click (EditDanger dangerId name_raw type_raw impulse_raw doom_raw) = True"
| "looks_up_at_click (EditImpulse dangerId raw) = True"
| "looks_up_at_click (EditDoom dangerId raw) = True"
| "looks_up_at_click (EditLocation dangerId index raw) = True"
| "looks_up_at_click (EditPortent dangerId portentId raw) = True"
| "looks_up_at_click (EditSecret dangerId secretId xp_choice text_in) = True"
| "looks_up_at_click a = False"

definition found :: "state \<Rightarrow> lookup \<Rightarrow> bool" where
  "found st l =
     (case l of
        NoLookup \<Rightarrow> True
      | FrontLookup frontId \<Rightarrow> getFront st frontId \<noteq> None
      | DangerLookup dangerId \<Rightarrow> getDanger st dangerId \<noteq> None)"

definition lookup_state :: "action \<Rightarrow> state \<Rightarrow> state \<Rightarrow> state" where
  "lookup_state a st0 st = (if looks_up_at_click a then st0 else st)"

section \<open>Concrete documents, states and responses\<close>

text \<open>
  A document with one front that owns one danger, one grim portent, one secret and one
  location; the state of a window showing it; requests that fail and that succeed.
\<close>

definition example_danger :: danger where
  "example_danger =
     \<lparr>danger_id = (js ''d1''), danger_name = (js ''Cult of Ash''), dangerType = (js ''Ambitious Organizations''),
      impulse = (js ''to spread corruption''), impendingDoom = (js ''Usurpation''),
      grimPortents = Some [\<lparr>portent_id = (js ''p1''), portent_text = (js ''Ash falls''), completed = False\<rparr>],
      secrets = Some [\<lparr>secret_id = (js ''s1''), xp = 30, secret_text = (js ''The mayor''), revealed = False, revealedAt = None\<rparr>],
      locations = Some [Some (js ''Old mill'')]\<rparr>"

definition example_front :: front where
  "example_front =
     \<lparr>front_id = (js ''f1''), front_name = (js ''The Hollow King''), front_type = (js ''campaign''),
      cast = Some [Some (js ''Mayor'')], stakes = Some [Some (js ''Who rules?'')], playerHooks = Some [],
      dangers = [example_danger]\<rparr>"

definition example_state :: state where
  "example_state =
     \<lparr>frontsData = Some \<lparr>fronts = Some [example_front]\<rparr>, expandedFronts = {}, expandedDangers = {},
      loading = False, error = None, scrollPosition = 0, effects = []\<rparr>"

definition failing_save :: response where
  "failing_save = HttpResponse False 500 JsonNull"

definition ok_save :: response where
  "ok_save = HttpResponse True 200 JsonNull"

definition failed_fetch :: response where
  "failed_fetch = TransportFailure (js ''Failed to fetch'')"

definition server_document :: document where
  "server_document = \<lparr>fronts = Some []\<rparr>"

text \<open>The front of the example after the cast line \<^verbatim>\<open>Bob\<close> was added.\<close>

definition front_with_bob :: front where
  "front_with_bob = example_front\<lparr>cast := Some [Some (js ''Mayor''), Some (js ''Bob'')]\<rparr>"

text \<open>
  The entities of the scenario "create a front, add a danger to it, add a secret to the
  danger", with the identifiers generated at clock reading 17 with random text
  \<^verbatim>\<open>k3x9\<close>; and the danger created from a form with only its name filled in.
\<close>

definition hollow_king :: front where
  "hollow_king =
     \<lparr>front_id = (js ''front-17-k3x9''), front_name = (js ''The Hollow King''), front_type = (js ''campaign''),
      cast = Some [], stakes = Some [], playerHooks = Some [], dangers = []\<rparr>"

definition cult_of_ash :: danger where
  "cult_of_ash =
     \<lparr>danger_id = (js ''danger-17-k3x9''), danger_name = (js ''Cult of Ash''),
      dangerType = (js ''Ambitious Organizations''), impulse = (js ''to spread corruption''),
      impendingDoom = (js ''Usurpation''),
      grimPortents = Some [], secrets = Some [], locations = Some []\<rparr>"

definition mayor_secret :: secret where
  "mayor_secret =
     \<lparr>secret_id = (js ''secret-17-k3x9''), xp = 30, secret_text = (js ''The cult leader is the mayor''),
      revealed = False, revealedAt = None\<rparr>"

definition default_danger :: danger where
  "default_danger =
     \<lparr>danger_id = (js ''danger-17-k3x9''), danger_name = (js ''Cult''), dangerType = (js ''Unknown''),
      impulse = (js ''to cause chaos''), impendingDoom = (js ''Destruction''),
      grimPortents = Some [], secrets = Some [], locations = Some []\<rparr>"

definition empty_state :: state where
  "empty_state =
     \<lparr>frontsData = Some \<lparr>fronts = Some []\<rparr>, expandedFronts = {}, expandedDangers = {},
      loading = False, error = None, scrollPosition = 0, effects = []\<rparr>"

definition state_with :: "front list \<Rightarrow> state" where
  "state_with fs = empty_state\<lparr>frontsData := Some \<lparr>fronts = Some fs\<rparr>\<rparr>"

text \<open>A state whose expansion sets name a front and a danger that the document does not have.\<close>

definition stale_state :: state where
  "stale_state = example_state\<lparr>expandedFronts := {(js ''f1''), (js ''gone'')}, expandedDangers := {(js ''d9'')}\<rparr>"

text \<open>
  The state after the server's document, which has no fronts, replaced the example; and
  a closure whose front is the example's front, no longer part of any document.
\<close>

definition detached_front :: closure where
  "detached_front = no_reference\<lparr>c_front := Some \<lparr>ref_object = example_front, ref_place = None\<rparr>\<rparr>"

definition replaced_state :: state where
  "replaced_state = example_state\<lparr>frontsData := Some server_document\<rparr>"

section \<open>Basic facts\<close>

subsection \<open>String literals\<close>

lemma js_Nil [simp]: "js [] = []"
  by (simp add: js_def)

lemma js_eq_Nil [simp]: "js a = [] \<longleftrightarrow> a = []"
  by (simp add: js_def)

lemma unat_of_char: "unat (of_char c :: code_unit) = of_char c"
proof -
  have "(of_char c :: code_unit) = of_nat (of_char c :: nat)"
    by (rule of_nat_of_char [symmetric])
  then have "unat (of_char c :: code_unit) = (of_char c :: nat) mod 2 ^ 16"
    by (simp only: unat_of_nat) simp
  moreover have "(of_char c :: nat) < 2 ^ 16"
    by (rule less_trans [OF nat_of_char_less_256]) simp
  ultimately show ?thesis by simp
qed

lemma of_char_code_unit_eq_iff: "(of_char c :: code_unit) = of_char d \<longleftrightarrow> c = d"
proof
  assume "(of_char c :: code_unit) = of_char d"
  then have "unat (of_char c :: code_unit) = unat (of_char d :: code_unit)" by simp
  then show "c = d" by (simp only: unat_of_char of_char_eq_iff)
qed simp

lemma js_eq_iff [simp]: "js a = js b \<longleftrightarrow> a = b"
proof
  assume "js a = js b"
  then show "a = b"
  proof (induction a arbitrary: b)
    case Nil
    then show ?case by (simp add: js_def)
  next
    case (Cons x xs)
    then obtain y ys where b: "b = y # ys" by (cases b) (auto simp: js_def)
    with Cons.prems have "(of_char x :: code_unit) = of_char y" "js xs = js ys"
      by (simp_all add: js_def)
    with Cons.IH b show ?case by (simp only: of_char_code_unit_eq_iff)
  qed
qed simp

lemma js_append [simp]:
  "js a @ js b = js (a @ b)"
  "js a @ js b @ c = js (a @ b) @ c"
  by (simp_all add: js_def)

subsection \<open>Evaluation\<close>

lemmas run_defs =
  getFront_def getDanger_def fronts_or_empty_def modifyFront_def modifyDanger_def modifyFronts_def
  saveFetchRender_def saveFronts_def notify_error_def notify_info_def render_def
  fetchFronts_def fetchFronts_try_def response_json_def issued_def Let_def
  trim_def is_space_def js_def

lemmas example_defs =
  example_state_def example_front_def example_danger_def

lemma show_nat_500: "show_nat 500 = ''500''"
  by code_simp

lemma show_nat_17: "show_nat 17 = ''17''"
  by code_simp

lemma request_error_failing_save: "request_error failing_save = Some (js ''Server error: 500'')"
  by (simp add: request_error_def failing_save_def show_nat_500)

lemma request_error_ok: "request_error (HttpResponse True status b) = None"
  by (simp add: request_error_def)

lemma request_error_ok_save: "request_error ok_save = None"
  by (simp add: ok_save_def request_error_def)

lemma request_error_failed_fetch: "request_error failed_fetch = Some (js ''Failed to fetch'')"
  by (simp add: failed_fetch_def request_error_def)

lemma effects_example_state: "effects example_state = []"
  by (simp add: example_state_def)

lemma trim_Bob: "trim (js ''Bob'') = (js ''Bob'')"
  by (simp add: trim_def is_space_def js_def)

lemma trim_examples:
  "trim (js ''The Hollow King'') = (js ''The Hollow King'')"
  "trim (js ''Cult of Ash'') = (js ''Cult of Ash'')"
  "trim (js ''Ambitious Organizations'') = (js ''Ambitious Organizations'')"
  "trim (js ''to spread corruption'') = (js ''to spread corruption'')"
  "trim (js ''Usurpation'') = (js ''Usurpation'')"
  "trim (js ''The cult leader is the mayor'') = (js ''The cult leader is the mayor'')"
  by (simp_all add: trim_def is_space_def js_def)

lemma trim_white_space:
  "trim [0x00A0] = []"
  "trim [0x0020, 0x2028, 0xFEFF, 0x3000] = []"
  "trim ([0x00A0, 0x2003] @ js ''Cult'' @ [0x3000, 0xFEFF, 0x2029]) = js ''Cult''"
  by (simp_all add: trim_def is_space_def js_def)

subsection \<open>Lists\<close>

lemma find_Some_split:
  "find P xs = Some x \<longleftrightarrow> (\<exists>pre post. xs = pre @ x # post \<and> P x \<and> (\<forall>y\<in>set pre. \<not> P y))"
proof (induction xs)
  case Nil
  then show ?case by simp
next
  case (Cons a xs)
  show ?case
  proof (cases "P a")
    case True
    have "(\<exists>pre post. a # xs = pre @ x # post \<and> P x \<and> (\<forall>y\<in>set pre. \<not> P y)) \<longleftrightarrow> a = x"
    proof
      assume "\<exists>pre post. a # xs = pre @ x # post \<and> P x \<and> (\<forall>y\<in>set pre. \<not> P y)"
      then obtain pre post where h: "a # xs = pre @ x # post" "\<forall>y\<in>set pre. \<not> P y" by blast
      with True show "a = x" by (cases pre) auto
    next
      assume "a = x"
      with True have "a # xs = [] @ x # xs \<and> P x \<and> (\<forall>y\<in>set []. \<not> P y)" by simp
      then show "\<exists>pre post. a # xs = pre @ x # post \<and> P x \<and> (\<forall>y\<in>set pre. \<not> P y)" by blast
    qed
    with True show ?thesis by auto
  next
    case False
    have "(\<exists>pre post. a # xs = pre @ x # post \<and> P x \<and> (\<forall>y\<in>set pre. \<not> P y)) \<longleftrightarrow>
          (\<exists>pre post. xs = pre @ x # post \<and> P x \<and> (\<forall>y\<in>set pre. \<not> P y))"
    proof
      assume "\<exists>pre post. a # xs = pre @ x # post \<and> P x \<and> (\<forall>y\<in>set pre. \<not> P y)"
      then obtain pre post where h: "a # xs = pre @ x # post" "P x" "\<forall>y\<in>set pre. \<not> P y" by blast
      with False obtain pre' where "pre = a # pre'" by (cases pre) auto
      with h have "xs = pre' @ x # post \<and> P x \<and> (\<forall>y\<in>set pre'. \<not> P y)" by simp
      then show "\<exists>pre post. xs = pre @ x # post \<and> P x \<and> (\<forall>y\<in>set pre. \<not> P y)" by blast
    next
      assume "\<exists>pre post. xs = pre @ x # post \<and> P x \<and> (\<forall>y\<in>set pre. \<not> P y)"
      then obtain pre post where h: "xs = pre @ x # post" "P x" "\<forall>y\<in>set pre. \<not> P y" by blast
      with False have "a # xs = (a # pre) @ x # post \<and> P x \<and> (\<forall>y\<in>set (a # pre). \<not> P y)" by simp
      then show "\<exists>pre post. a # xs = pre @ x # post \<and> P x \<and> (\<forall>y\<in>set pre. \<not> P y)" by blast
    qed
    with False Cons.IH show ?thesis by simp
  qed
qed

lemma find_None_all: "find P xs = None \<longleftrightarrow> (\<forall>y\<in>set xs. \<not> P y)"
  by (induction xs) auto

lemma modify_first_append:
  "(\<forall>y\<in>set pre. \<not> P y) \<Longrightarrow> P x \<Longrightarrow> modify_first P g (pre @ x # post) = pre @ g x # post"
  by (induction pre) auto

subsection \<open>Accessors\<close>

lemma getDanger_loop_None:
  "getDanger_loop fs j = None \<longleftrightarrow> (\<forall>f\<in>set fs. \<forall>d\<in>set (dangers f). danger_id d \<noteq> j)"
  by (induction fs) (auto simp: find_None_all find_Some_split split: option.splits)

lemma getDanger_loop_Some:
  "getDanger_loop fs j = Some (f, d) \<longleftrightarrow> first_danger fs j f d"
proof (induction fs)
  case Nil
  then show ?case by (simp add: first_danger_def)
next
  case (Cons a fs)
  show ?case
  proof (cases "find (\<lambda>d. danger_id d = j) (dangers a)")
    case None
    then have no: "\<forall>e\<in>set (dangers a). danger_id e \<noteq> j" by (simp add: find_None_all)
    have "first_danger (a # fs) j f d \<longleftrightarrow> first_danger fs j f d"
    proof
      assume "first_danger (a # fs) j f d"
      then obtain pre post dpre dpost where h: "a # fs = pre @ f # post"
        "\<forall>g\<in>set pre. \<forall>e\<in>set (dangers g). danger_id e \<noteq> j"
        "dangers f = dpre @ d # dpost" "danger_id d = j" "\<forall>e\<in>set dpre. danger_id e \<noteq> j"
        unfolding first_danger_def by blast
      from h no obtain pre' where p: "pre = a # pre'" by (cases pre) auto
      with h have "fs = pre' @ f # post" "\<forall>g\<in>set pre'. \<forall>e\<in>set (dangers g). danger_id e \<noteq> j" by simp_all
      with h show "first_danger fs j f d" unfolding first_danger_def by blast
    next
      assume "first_danger fs j f d"
      then obtain pre post dpre dpost where h: "fs = pre @ f # post"
        "\<forall>g\<in>set pre. \<forall>e\<in>set (dangers g). danger_id e \<noteq> j"
        "dangers f = dpre @ d # dpost" "danger_id d = j" "\<forall>e\<in>set dpre. danger_id e \<noteq> j"
        unfolding first_danger_def by blast
      with no have "a # fs = (a # pre) @ f # post" "\<forall>g\<in>set (a # pre). \<forall>e\<in>set (dangers g). danger_id e \<noteq> j" by simp_all
      with h show "first_danger (a # fs) j f d" unfolding first_danger_def by blast
    qed
    with None Cons.IH show ?thesis by simp
  next
    case (Some d')
    then obtain dpre dpost where s: "dangers a = dpre @ d' # dpost" "danger_id d' = j" "\<forall>e\<in>set dpre. danger_id e \<noteq> j"
      by (auto simp: find_Some_split)
    have "first_danger (a # fs) j f d \<longleftrightarrow> (a = f \<and> d' = d)"
    proof
      assume "first_danger (a # fs) j f d"
      then obtain pre post dpre2 dpost2 where h: "a # fs = pre @ f # post"
        "\<forall>g\<in>set pre. \<forall>e\<in>set (dangers g). danger_id e \<noteq> j"
        "dangers f = dpre2 @ d # dpost2" "danger_id d = j" "\<forall>e\<in>set dpre2. danger_id e \<noteq> j"
        unfolding first_danger_def by blast
      have "pre = []"
      proof (cases pre)
        case Nil then show ?thesis .
      next
        case (Cons b pre')
        with h(1) have "b = a" by simp
        with Cons h(2) s show ?thesis by auto
      qed
      with h(1) have af: "a = f" by simp
      with h(3,4,5) have "find (\<lambda>d. danger_id d = j) (dangers a) = Some d"
        by (auto simp: find_Some_split)
      with Some af show "a = f \<and> d' = d" by simp
    next
      assume "a = f \<and> d' = d"
      with s have "a # fs = [] @ f # fs" "\<forall>g\<in>set []. \<forall>e\<in>set (dangers g). danger_id e \<noteq> j"
        "dangers f = dpre @ d # dpost" "danger_id d = j" "\<forall>e\<in>set dpre. danger_id e \<noteq> j" by simp_all
      then show "first_danger (a # fs) j f d" unfolding first_danger_def by blast
    qed
    with Some show ?thesis by auto
  qed
qed

lemma getFront_SomeD:
  "getFront st i = Some f \<Longrightarrow>
   \<exists>d fs. frontsData st = Some d \<and> fronts d = Some fs \<and> find (\<lambda>f. front_id f = i) fs = Some f"
  by (auto simp: getFront_def split: option.splits)

lemma getDanger_SomeD:
  "getDanger st j = Some r \<Longrightarrow>
   \<exists>d fs. frontsData st = Some d \<and> fronts d = Some fs \<and> getDanger_loop fs j = Some r"
  by (auto simp: getDanger_def fronts_or_empty_def split: option.splits)

lemma fronts_or_empty_doc:
  "frontsData st = Some d \<Longrightarrow> fronts d = Some fs \<Longrightarrow> fronts_or_empty st = fs"
  by (simp add: fronts_or_empty_def)

subsection \<open>What each step leaves unchanged, and what it issues\<close>

lemma notify_info_simps [simp]:
  "effects (notify_info m st) = effects st @ [NotifyInfo m]"
  "frontsData (notify_info m st) = frontsData st"
  "expandedFronts (notify_info m st) = expandedFronts st"
  "expandedDangers (notify_info m st) = expandedDangers st"
  "loading (notify_info m st) = loading st"
  "error (notify_info m st) = error st"
  by (simp_all add: notify_info_def)

lemma render_simps [simp]:
  "effects (render st) = effects st @ [Render]"
  "frontsData (render st) = frontsData st"
  "expandedFronts (render st) = expandedFronts st"
  "expandedDangers (render st) = expandedDangers st"
  "loading (render st) = loading st"
  "error (render st) = error st"
  by (simp_all add: render_def)

lemma fetchFronts_simps [simp]:
  "effects (fetchFronts r st) = effects st @ [FetchCall]"
  "loading (fetchFronts r st) = False"
  by (simp_all add: fetchFronts_def fetchFronts_try_def Let_def split: option.split body.split)

lemma fetchFronts_frontsData:
  "frontsData (fetchFronts r st) =
     (case request_error r of
        Some m \<Rightarrow> frontsData st
      | None \<Rightarrow> (case response_json r of BadJson m \<Rightarrow> frontsData st | JsonNull \<Rightarrow> None | JsonDoc d \<Rightarrow> Some d))"
  by (simp add: fetchFronts_def fetchFronts_try_def Let_def split: option.split body.split)

lemma fetchFronts_error:
  "error (fetchFronts r st) =
     (case request_error r of
        Some m \<Rightarrow> Some ((js ''Verbindung zum Server fehlgeschlagen: '') @ m)
      | None \<Rightarrow> (case response_json r of
                   BadJson m \<Rightarrow> Some ((js ''Verbindung zum Server fehlgeschlagen: '') @ m)
                 | JsonNull \<Rightarrow> Some ((js ''Verbindung zum Server fehlgeschlagen: '') @ null_fronts_message)
                 | JsonDoc d \<Rightarrow> None))"
  by (simp add: fetchFronts_def fetchFronts_try_def Let_def split: option.split body.split)

lemma fetchFronts_expanded:
  "fetchFronts r (st\<lparr>expandedFronts := E, expandedDangers := D\<rparr>) =
   (fetchFronts r st)\<lparr>expandedFronts := E, expandedDangers := D\<rparr>"
  by (simp add: fetchFronts_def fetchFronts_try_def Let_def split: option.split body.split)

lemma fetchFronts_expanded_same [simp]:
  "expandedFronts (fetchFronts r st) = expandedFronts st"
  "expandedDangers (fetchFronts r st) = expandedDangers st"
  by (simp_all add: fetchFronts_def fetchFronts_try_def Let_def split: option.split body.split)

lemma saveFronts_simps [simp]:
  "frontsData (snd (saveFronts r st)) = frontsData st"
  "expandedFronts (snd (saveFronts r st)) = expandedFronts st"
  "expandedDangers (snd (saveFronts r st)) = expandedDangers st"
  "loading (snd (saveFronts r st)) = loading st"
  "error (snd (saveFronts r st)) = error st"
  by (simp_all add: saveFronts_def notify_error_def Let_def split: option.split)

lemma saveFronts_effects:
  "frontsData st = Some d \<Longrightarrow>
   effects (snd (saveFronts r st)) =
     effects st @ SaveCall (fronts d) #
       (case request_error r of Some m \<Rightarrow> [NotifyError ((js ''Fehler beim Speichern: '') @ m)] | None \<Rightarrow> [])"
  by (simp add: saveFronts_def notify_error_def Let_def split: option.split)

lemma saveFetchRender_effects:
  "frontsData st = Some d \<Longrightarrow>
   effects (saveFetchRender sr fr st) =
     effects st @ SaveCall (fronts d) #
       (case request_error sr of Some m \<Rightarrow> [NotifyError ((js ''Fehler beim Speichern: '') @ m)] | None \<Rightarrow> []) @
       [FetchCall, Render]"
  by (simp add: saveFetchRender_def saveFronts_effects)

lemma saveFetchRender_frontsData:
  "frontsData (saveFetchRender sr fr st) = frontsData (fetchFronts fr st)"
  by (simp add: saveFetchRender_def fetchFronts_frontsData split: option.split body.split)

lemma saveFetchRender_expanded [simp]:
  "expandedFronts (saveFetchRender sr fr st) = expandedFronts st"
  "expandedDangers (saveFetchRender sr fr st) = expandedDangers st"
  by (simp_all add: saveFetchRender_def)

lemma modifyFronts_simps [simp]:
  "effects (modifyFronts g st) = effects st"
  "expandedFronts (modifyFronts g st) = expandedFronts st"
  "expandedDangers (modifyFronts g st) = expandedDangers st"
  "loading (modifyFronts g st) = loading st"
  "error (modifyFronts g st) = error st"
  "frontsData (modifyFronts g st) = None \<longleftrightarrow> frontsData st = None"
  by (simp_all add: modifyFronts_def)

lemma modifyFronts_doc:
  "frontsData st = Some d \<Longrightarrow> fronts d = Some fs \<Longrightarrow>
   frontsData (modifyFronts g st) = Some (d\<lparr>fronts := Some (g fs)\<rparr>)"
  by (simp add: modifyFronts_def)

lemma issued_append [simp]: "effects st' = effects st @ es \<Longrightarrow> issued st st' = es"
  by (simp add: issued_def)

subsection \<open>The document after an assignment through a found object\<close>

lemma modifyFront_doc:
  assumes "getFront st i = Some f"
  shows "\<exists>d pre post. frontsData st = Some d \<and> fronts d = Some (pre @ f # post) \<and>
           front_id f = i \<and> (\<forall>g\<in>set pre. front_id g \<noteq> i) \<and>
           (\<forall>g. frontsData (modifyFront i g st) = Some (d\<lparr>fronts := Some (pre @ g f # post)\<rparr>))"
proof -
  from getFront_SomeD [OF assms] obtain d fs where
    d: "frontsData st = Some d" "fronts d = Some fs" "find (\<lambda>f. front_id f = i) fs = Some f" by blast
  from d(3) obtain pre post where
    p: "fs = pre @ f # post" "front_id f = i" "\<forall>g\<in>set pre. front_id g \<noteq> i"
    by (auto simp: find_Some_split)
  have "\<forall>g. frontsData (modifyFront i g st) = Some (d\<lparr>fronts := Some (pre @ g f # post)\<rparr>)"
    using d(1,2) p by (simp add: modifyFront_def modifyFronts_doc modify_first_append)
  with d p show ?thesis by blast
qed

lemma modifyDanger_doc:
  assumes "getDanger st j = Some (f, dg)"
  shows "\<exists>d pre post dpre dpost. frontsData st = Some d \<and> fronts d = Some (pre @ f # post) \<and>
           dangers f = dpre @ dg # dpost \<and> danger_id dg = j \<and>
           (\<forall>g\<in>set pre. \<forall>e\<in>set (dangers g). danger_id e \<noteq> j) \<and>
           (\<forall>e\<in>set dpre. danger_id e \<noteq> j) \<and>
           (\<forall>g. frontsData (modifyDanger j g st) =
                  Some (d\<lparr>fronts := Some (pre @ f\<lparr>dangers := dpre @ g dg # dpost\<rparr> # post)\<rparr>))"
proof -
  from getDanger_SomeD [OF assms] obtain d fs where
    d: "frontsData st = Some d" "fronts d = Some fs" "getDanger_loop fs j = Some (f, dg)" by blast
  from d(3) obtain pre post dpre dpost where
    p: "fs = pre @ f # post" "\<forall>g\<in>set pre. \<forall>e\<in>set (dangers g). danger_id e \<noteq> j"
       "dangers f = dpre @ dg # dpost" "danger_id dg = j" "\<forall>e\<in>set dpre. danger_id e \<noteq> j"
    unfolding getDanger_loop_Some first_danger_def by blast
  have a: "\<forall>g\<in>set pre. \<not> (find (\<lambda>d. danger_id d = j) (dangers g) \<noteq> None)"
    using p(2) by (simp add: find_None_all)
  have b: "find (\<lambda>d. danger_id d = j) (dangers f) \<noteq> None"
    using p(3,4) by (simp add: find_None_all)
  have "\<forall>g. frontsData (modifyDanger j g st) =
                  Some (d\<lparr>fronts := Some (pre @ f\<lparr>dangers := dpre @ g dg # dpost\<rparr> # post)\<rparr>)"
    using d(1,2) p(1,3,4,5) modify_first_append [OF a b]
    by (simp add: modifyDanger_def modifyFronts_doc modify_first_append)
  with d p show ?thesis by blast
qed

section \<open>The fetch operation\<close>

text \<open>
  C10. Every run of \<^verbatim>\<open>#fetchFronts\<close>, whatever the response or failure, ends with
  the loading flag false; and since the error message is cleared on entry, a fetch that
  receives a successful response carrying a document ends with the error message null
  and that document in place.
\<close>

theorem fetchFronts_loading_reset:
  "loading (fetchFronts r st) = False \<and>
   error (fetchFronts (HttpResponse True status (JsonDoc d)) st) = None \<and>
   frontsData (fetchFronts (HttpResponse True status (JsonDoc d)) st) = Some d"
  by (simp add: fetchFronts_def fetchFronts_try_def request_error_def response_json_def Let_def
      split: response.split body.split option.split prod.split)

text \<open>
  C3, as the code has it. When the request of \<^verbatim>\<open>#fetchFronts\<close> fails (the transport
  fails or the status is not a success), the document is never partially populated: the
  document reference is left exactly as it was before the fetch, so it is null
  afterwards when it was null before, and a document present before is still present;
  the error message is recorded and the loading flag is false.
\<close>

theorem fetchFronts_failure_keeps_document:
  "request_error r = Some m \<Longrightarrow>
     frontsData (fetchFronts r st) = frontsData st \<and>
     error (fetchFronts r st) = Some ((js ''Verbindung zum Server fehlgeschlagen: '') @ m) \<and>
     loading (fetchFronts r st) = False"
  by (simp add: fetchFronts_def fetchFronts_try_def)

theorem fetchFronts_failure_keeps_document_witness:
  "request_error failing_save = Some (js ''Server error: 500'') \<and>
   frontsData (fetchFronts failing_save (example_state\<lparr>frontsData := None\<rparr>)) = None \<and>
   error (fetchFronts failing_save (example_state\<lparr>frontsData := None\<rparr>)) =
     Some (js ''Verbindung zum Server fehlgeschlagen: Server error: 500'')"
  using fetchFronts_failure_keeps_document
          [OF request_error_failing_save, of "example_state\<lparr>frontsData := None\<rparr>"]
        request_error_failing_save
  by simp

text \<open>
  C3 as stated requires the document reference to be null after a failed fetch for every
  prior state. With a document present before the fetch, the failed fetch leaves that
  document in place.
\<close>

theorem fetchFronts_failure_not_null_counterexample:
  "request_error failing_save = Some (js ''Server error: 500'') \<and>
   frontsData example_state \<noteq> None \<and>
   frontsData (fetchFronts failing_save example_state) = frontsData example_state"
  by (simp add: request_error_failing_save fetchFronts_def fetchFronts_try_def Let_def
      example_state_def)

section \<open>The entity accessors\<close>

text \<open>
  C6. \<^verbatim>\<open>#getFront\<close> and \<^verbatim>\<open>#getDanger\<close> are functions of the state that return a
  value for every state and identifier and change nothing. Without a document both
  return absent. Each returns absent exactly when no front (no danger of any front) has
  the identifier. \<^verbatim>\<open>#getFront\<close> returns the first front with the identifier;
  \<^verbatim>\<open>#getDanger\<close> scans the fronts in order and returns the first danger with the
  identifier, paired with the front that owns it.
\<close>

theorem accessors_total:
  "(frontsData st = None \<longrightarrow> getFront st i = None \<and> getDanger st j = None) \<and>
   (getFront st i = None \<longleftrightarrow> (\<forall>f\<in>set (fronts_or_empty st). front_id f \<noteq> i)) \<and>
   (getDanger st j = None \<longleftrightarrow> (\<forall>f\<in>set (fronts_or_empty st). \<forall>d\<in>set (dangers f). danger_id d \<noteq> j)) \<and>
   (getFront st i = Some f \<longleftrightarrow>
      (\<exists>pre post. fronts_or_empty st = pre @ f # post \<and> front_id f = i \<and> (\<forall>g\<in>set pre. front_id g \<noteq> i))) \<and>
   (getDanger st j = Some (f, d) \<longleftrightarrow>
      (\<exists>pre post dpre dpost.
        fronts_or_empty st = pre @ f # post \<and>
        (\<forall>g\<in>set pre. \<forall>e\<in>set (dangers g). danger_id e \<noteq> j) \<and>
        dangers f = dpre @ d # dpost \<and> danger_id d = j \<and> (\<forall>e\<in>set dpre. danger_id e \<noteq> j)))"
proof (intro conjI)
  show "frontsData st = None \<longrightarrow> getFront st i = None \<and> getDanger st j = None"
    by (simp add: getFront_def getDanger_def fronts_or_empty_def)
  show "getFront st i = None \<longleftrightarrow> (\<forall>f\<in>set (fronts_or_empty st). front_id f \<noteq> i)"
    by (auto simp: getFront_def fronts_or_empty_def find_None_all split: option.split)
  show "getDanger st j = None \<longleftrightarrow> (\<forall>f\<in>set (fronts_or_empty st). \<forall>d\<in>set (dangers f). danger_id d \<noteq> j)"
    by (simp add: getDanger_def getDanger_loop_None)
  show "getFront st i = Some f \<longleftrightarrow>
      (\<exists>pre post. fronts_or_empty st = pre @ f # post \<and> front_id f = i \<and> (\<forall>g\<in>set pre. front_id g \<noteq> i))"
    by (simp add: getFront_def fronts_or_empty_def find_Some_split split: option.split)
  show "getDanger st j = Some (f, d) \<longleftrightarrow>
      (\<exists>pre post dpre dpost.
        fronts_or_empty st = pre @ f # post \<and>
        (\<forall>g\<in>set pre. \<forall>e\<in>set (dangers g). danger_id e \<noteq> j) \<and>
        dangers f = dpre @ d # dpost \<and> danger_id d = j \<and> (\<forall>e\<in>set dpre. danger_id e \<noteq> j))"
    by (simp add: getDanger_def getDanger_loop_Some first_danger_def)
qed

theorem accessors_total_witness:
  "frontsData (example_state\<lparr>frontsData := None\<rparr>) = None \<and>
   getFront (example_state\<lparr>frontsData := None\<rparr>) (js ''f1'') = None \<and>
   getDanger (example_state\<lparr>frontsData := None\<rparr>) (js ''d1'') = None \<and>
   getFront example_state (js ''f2'') = None \<and>
   getDanger example_state (js ''d2'') = None \<and>
   getFront example_state (js ''f1'') = Some example_front \<and>
   getDanger example_state (js ''d1'') = Some (example_front, example_danger)"
proof -
  have fs: "fronts_or_empty example_state = [] @ example_front # []"
    by (simp add: fronts_or_empty_def example_state_def)
  have ds: "dangers example_front = [] @ example_danger # []"
    by (simp add: example_front_def)
  have ids: "front_id example_front = (js ''f1'')" "danger_id example_danger = (js ''d1'')"
    by (simp_all add: example_front_def example_danger_def)
  have none: "frontsData (example_state\<lparr>frontsData := None\<rparr>) = None" by simp
  note t0 = accessors_total [of "example_state\<lparr>frontsData := None\<rparr>" "(js ''f1'')" "(js ''d1'')" example_front example_danger]
  note t1 = accessors_total [of example_state "(js ''f2'')" "(js ''d2'')" example_front example_danger]
  note t2 = accessors_total [of example_state "(js ''f1'')" "(js ''d1'')" example_front example_danger]
  from t0 none have a: "getFront (example_state\<lparr>frontsData := None\<rparr>) (js ''f1'') = None"
    "getDanger (example_state\<lparr>frontsData := None\<rparr>) (js ''d1'') = None" by blast+
  from t1 have b: "getFront example_state (js ''f2'') = None" "getDanger example_state (js ''d2'') = None"
    by (simp_all add: fs ds ids)
  have "\<exists>pre post. fronts_or_empty example_state = pre @ example_front # post \<and>
          front_id example_front = (js ''f1'') \<and> (\<forall>g\<in>set pre. front_id g \<noteq> (js ''f1''))"
    using fs ids by (intro exI [of _ "[]"]) simp
  with t2 have c: "getFront example_state (js ''f1'') = Some example_front" by blast
  have "\<exists>pre post dpre dpost.
          fronts_or_empty example_state = pre @ example_front # post \<and>
          (\<forall>g\<in>set pre. \<forall>e\<in>set (dangers g). danger_id e \<noteq> (js ''d1'')) \<and>
          dangers example_front = dpre @ example_danger # dpost \<and>
          danger_id example_danger = (js ''d1'') \<and> (\<forall>e\<in>set dpre. danger_id e \<noteq> (js ''d1''))"
    using fs ds ids by (intro exI [of _ "[]"]) simp
  with t2 have d: "getDanger example_state (js ''d1'') = Some (example_front, example_danger)" by blast
  from none a b c d show ?thesis by blast
qed

section \<open>The rendered view\<close>

lemma prepareContext_expanded_state:
  "expandedFronts (snd (prepareContext r st)) = expandedFronts st"
  "expandedDangers (snd (prepareContext r st)) = expandedDangers st"
  by (simp_all add: prepareContext_def Let_def)

lemma prepareContext_fronts:
  "ctx_fronts (fst (prepareContext r st)) =
     map (\<lambda>front.
           \<lparr>fv_front = front,
            fv_expanded = (front_id front \<in> expandedFronts st),
            fv_dangers =
              map (\<lambda>danger. \<lparr>dv_danger = danger, dv_expanded = (danger_id danger \<in> expandedDangers st)\<rparr>)
                (dangers front)\<rparr>)
       (fronts_or_empty (snd (prepareContext r st)))"
  by (simp add: prepareContext_def Let_def)

lemma prepareContext_snd_expanded:
  "snd (prepareContext r (st\<lparr>expandedFronts := E, expandedDangers := D\<rparr>)) =
   (snd (prepareContext r st))\<lparr>expandedFronts := E, expandedDangers := D\<rparr>"
  by (simp add: prepareContext_def Let_def fetchFronts_expanded)

lemma fronts_or_empty_expanded [simp]:
  "fronts_or_empty (st\<lparr>expandedFronts := E, expandedDangers := D\<rparr>) = fronts_or_empty st"
  by (simp add: fronts_or_empty_def)

lemma prepareContext_flags:
  "ctx_loading (fst (prepareContext r st)) = loading (snd (prepareContext r st))"
  "ctx_error (fst (prepareContext r st)) = error (snd (prepareContext r st))"
  by (simp_all add: prepareContext_def Let_def)

text \<open>
  C5. For every document and every content of the two expansion sets,
  \<^verbatim>\<open>_prepareContext\<close> yields a view: one entry for each front of the document, in
  order, with one entry for each of its dangers. An entry carries \<open>expanded = True\<close>
  exactly when its identifier is in the corresponding set. Identifiers in the sets that
  the document does not have are without effect: two pairs of expansion sets that agree
  on the identifiers of the document give the same view.
\<close>

theorem prepareContext_stale_ids:
  "map fv_front (ctx_fronts (fst (prepareContext r st))) = fronts_or_empty (snd (prepareContext r st)) \<and>
   (\<forall>v\<in>set (ctx_fronts (fst (prepareContext r st))).
      map dv_danger (fv_dangers v) = dangers (fv_front v) \<and>
      fv_expanded v = (front_id (fv_front v) \<in> expandedFronts st) \<and>
      (\<forall>w\<in>set (fv_dangers v). dv_expanded w = (danger_id (dv_danger w) \<in> expandedDangers st))) \<and>
   ((\<forall>f\<in>set (fronts_or_empty (snd (prepareContext r st))).
       (front_id f \<in> E) = (front_id f \<in> expandedFronts st) \<and>
       (\<forall>d\<in>set (dangers f). (danger_id d \<in> D) = (danger_id d \<in> expandedDangers st))) \<longrightarrow>
    fst (prepareContext r (st\<lparr>expandedFronts := E, expandedDangers := D\<rparr>)) = fst (prepareContext r st))"
proof (intro conjI impI)
  show "map fv_front (ctx_fronts (fst (prepareContext r st))) = fronts_or_empty (snd (prepareContext r st))"
    by (simp add: prepareContext_fronts comp_def)
  show "\<forall>v\<in>set (ctx_fronts (fst (prepareContext r st))).
      map dv_danger (fv_dangers v) = dangers (fv_front v) \<and>
      fv_expanded v = (front_id (fv_front v) \<in> expandedFronts st) \<and>
      (\<forall>w\<in>set (fv_dangers v). dv_expanded w = (danger_id (dv_danger w) \<in> expandedDangers st))"
    by (auto simp: prepareContext_fronts comp_def)
next
  assume h: "\<forall>f\<in>set (fronts_or_empty (snd (prepareContext r st))).
       (front_id f \<in> E) = (front_id f \<in> expandedFronts st) \<and>
       (\<forall>d\<in>set (dangers f). (danger_id d \<in> D) = (danger_id d \<in> expandedDangers st))"
  let ?c = "fst (prepareContext r st)" and ?c' = "fst (prepareContext r (st\<lparr>expandedFronts := E, expandedDangers := D\<rparr>))"
  have "ctx_fronts ?c' = ctx_fronts ?c"
    using h by (simp add: prepareContext_fronts prepareContext_snd_expanded)
  moreover have "ctx_loading ?c' = ctx_loading ?c" "ctx_error ?c' = ctx_error ?c"
    by (simp_all add: prepareContext_flags prepareContext_snd_expanded)
  ultimately show "?c' = ?c" by simp
qed

theorem prepareContext_stale_ids_witness:
  "fst (prepareContext failed_fetch (stale_state\<lparr>expandedFronts := {(js ''f1'')}, expandedDangers := {}\<rparr>)) =
     fst (prepareContext failed_fetch stale_state) \<and>
   ctx_fronts (fst (prepareContext failed_fetch stale_state)) =
     [\<lparr>fv_front = example_front, fv_expanded = True,
       fv_dangers = [\<lparr>dv_danger = example_danger, dv_expanded = False\<rparr>]\<rparr>]"
proof -
  note t = prepareContext_stale_ids [of failed_fetch stale_state "{(js ''f1'')}" "{}"]
  have s: "snd (prepareContext failed_fetch stale_state) = stale_state"
    by (simp add: prepareContext_def Let_def stale_state_def example_state_def)
  have f: "fronts_or_empty stale_state = [example_front]"
    by (simp add: fronts_or_empty_def stale_state_def example_state_def)
  have h: "\<forall>f\<in>set (fronts_or_empty (snd (prepareContext failed_fetch stale_state))).
       (front_id f \<in> {(js ''f1'')}) = (front_id f \<in> expandedFronts stale_state) \<and>
       (\<forall>d\<in>set (dangers f). (danger_id d \<in> {}) = (danger_id d \<in> expandedDangers stale_state))"
    unfolding s f by (simp add: stale_state_def example_state_def example_front_def example_danger_def)
  from t h have e: "fst (prepareContext failed_fetch (stale_state\<lparr>expandedFronts := {(js ''f1'')}, expandedDangers := {}\<rparr>)) =
     fst (prepareContext failed_fetch stale_state)" by blast
  have "ctx_fronts (fst (prepareContext failed_fetch stale_state)) =
     [\<lparr>fv_front = example_front, fv_expanded = True,
       fv_dangers = [\<lparr>dv_danger = example_danger, dv_expanded = False\<rparr>]\<rparr>]"
    unfolding prepareContext_fronts s f
    by (simp add: stale_state_def example_state_def example_front_def example_danger_def)
  with e show ?thesis by blast
qed

section \<open>Expansion toggles\<close>

text \<open>
  C9. A click that toggles a front (one not on the edit button) flips the membership of
  that front's identifier in the set of expanded fronts and of no other identifier, and
  two such clicks in a row restore the set; likewise for a danger and the set of
  expanded dangers.
\<close>

theorem toggle_involution:
  "expandedFronts (onToggleFront False i (onToggleFront False i st)) = expandedFronts st \<and>
   (j \<in> expandedFronts (onToggleFront False i st)) = (if j = i then i \<notin> expandedFronts st else j \<in> expandedFronts st) \<and>
   expandedDangers (onToggleDanger i (onToggleDanger i st)) = expandedDangers st \<and>
   (j \<in> expandedDangers (onToggleDanger i st)) = (if j = i then i \<notin> expandedDangers st else j \<in> expandedDangers st)"
  by (auto simp: onToggleFront_def onToggleDanger_def render_def)

section \<open>How a mutating action ends\<close>

lemma abandoned_refl: "abandoned st st"
proof -
  have "list_all is_info [] \<and> st = st\<lparr>effects := effects st @ []\<rparr>" by simp
  then show ?thesis unfolding abandoned_def by blast
qed

lemma abandoned_info: "abandoned st s \<Longrightarrow> abandoned st (notify_info m s)"
proof -
  assume "abandoned st s"
  then obtain tail where t: "list_all is_info tail" "s = st\<lparr>effects := effects st @ tail\<rparr>"
    unfolding abandoned_def by blast
  then have "list_all is_info (tail @ [NotifyInfo m]) \<and>
      notify_info m s = st\<lparr>effects := effects st @ (tail @ [NotifyInfo m])\<rparr>"
    by (simp add: notify_info_def is_info_def)
  then show ?thesis unfolding abandoned_def by blast
qed

lemma persisted_base:
  "frontsData stm \<noteq> None \<Longrightarrow> effects stm = effects st \<Longrightarrow> persisted sr fr st (saveFetchRender sr fr stm)"
proof -
  assume "frontsData stm \<noteq> None" "effects stm = effects st"
  then have "frontsData stm \<noteq> None \<and> effects stm = effects st \<and> list_all is_info [] \<and>
        effects (saveFetchRender sr fr stm) = effects (saveFetchRender sr fr stm) @ [] \<and>
        frontsData (saveFetchRender sr fr stm) = frontsData (saveFetchRender sr fr stm)" by simp
  then show ?thesis unfolding persisted_def by blast
qed

lemma persisted_info: "persisted sr fr st s \<Longrightarrow> persisted sr fr st (notify_info m s)"
proof -
  assume "persisted sr fr st s"
  then obtain stm tail where t: "frontsData stm \<noteq> None" "effects stm = effects st" "list_all is_info tail"
      "effects s = effects (saveFetchRender sr fr stm) @ tail"
      "frontsData s = frontsData (saveFetchRender sr fr stm)"
    unfolding persisted_def by blast
  then have "frontsData stm \<noteq> None \<and> effects stm = effects st \<and> list_all is_info (tail @ [NotifyInfo m]) \<and>
      effects (notify_info m s) = effects (saveFetchRender sr fr stm) @ (tail @ [NotifyInfo m]) \<and>
      frontsData (notify_info m s) = frontsData (saveFetchRender sr fr stm)"
    by (simp add: is_info_def)
  then show ?thesis unfolding persisted_def by blast
qed

lemma persisted_front:
  "getFront st i = Some f \<Longrightarrow> persisted sr fr st (saveFetchRender sr fr (modifyFront i g st))"
  by (rule persisted_base) (auto simp: modifyFront_def dest: getFront_SomeD)

lemma persisted_danger:
  "getDanger st j = Some r \<Longrightarrow> persisted sr fr st (saveFetchRender sr fr (modifyDanger j g st))"
  by (rule persisted_base) (auto simp: modifyDanger_def dest: getDanger_SomeD)

lemma settled_refl: "settled sr fr st st"
  by (simp add: settled_def abandoned_refl)

lemma settled_info: "settled sr fr st s \<Longrightarrow> settled sr fr st (notify_info m s)"
  unfolding settled_def using abandoned_info persisted_info by blast

lemma settled_front:
  "getFront st i \<noteq> None \<Longrightarrow> settled sr fr st (saveFetchRender sr fr (modifyFront i g st))"
  using persisted_front by (auto simp: settled_def)

lemma settled_danger:
  "getDanger st j \<noteq> None \<Longrightarrow> settled sr fr st (saveFetchRender sr fr (modifyDanger j g st))"
  using persisted_danger by (auto simp: settled_def)

lemma settled_text_dialog:
  assumes "\<And>v. settled sr fr st (onSave v st)"
  shows "settled sr fr st (showEditTextDialog raw onSave st)"
proof (cases "trim raw = []")
  case True
  then show ?thesis by (simp add: showEditTextDialog_def settled_refl)
next
  case False
  then show ?thesis using assms [of "trim raw"] by (simp add: showEditTextDialog_def settled_info)
qed

lemmas settled_rules = settled_refl settled_info settled_front settled_danger

subsection \<open>Every handler either abandons or persists\<close>

lemma settled_onEditFrontName: "settled sr fr st (onEditFrontName i raw sr fr st)"
  unfolding onEditFrontName_def
  by (intro settled_text_dialog) (simp add: settled_rules split: option.split)

lemma settled_onAddCast: "settled sr fr st (onAddCast i raw sr fr st)"
  unfolding onAddCast_def
  by (intro settled_text_dialog) (simp add: settled_rules split: option.split)

lemma settled_onEditCast: "settled sr fr st (onEditCast i n raw sr fr st)"
  unfolding onEditCast_def Let_def
  by (intro settled_text_dialog) (simp add: settled_rules split: option.split)

lemma settled_onDeleteCast: "settled sr fr st (onDeleteCast i n sr fr st)"
  unfolding onDeleteCast_def
  by (simp add: settled_rules split: option.split)

lemma settled_onAddStake: "settled sr fr st (onAddStake i raw sr fr st)"
  unfolding onAddStake_def
  by (intro settled_text_dialog) (simp add: settled_rules split: option.split)

lemma settled_onEditStake: "settled sr fr st (onEditStake i n raw sr fr st)"
  unfolding onEditStake_def Let_def
  by (intro settled_text_dialog) (simp add: settled_rules split: option.split)

lemma settled_onDeleteStake: "settled sr fr st (onDeleteStake i n sr fr st)"
  unfolding onDeleteStake_def
  by (simp add: settled_rules split: option.split)

lemma settled_showEditDangerDialog: "settled sr fr st (showEditDangerDialog j a b c d sr fr st)"
  unfolding showEditDangerDialog_def
  by (simp add: settled_rules split: option.split)

lemma settled_onDeleteDanger: "settled sr fr st (onDeleteDanger i j c sr fr st)"
  unfolding onDeleteDanger_def
  by (simp add: settled_rules split: option.split)

lemma settled_onEditImpulse: "settled sr fr st (onEditImpulse j raw sr fr st)"
  unfolding onEditImpulse_def Let_def
  by (intro settled_text_dialog) (simp add: settled_rules split: option.split)

lemma settled_onEditDoom: "settled sr fr st (onEditDoom j raw sr fr st)"
  unfolding onEditDoom_def Let_def
  by (intro settled_text_dialog) (simp add: settled_rules split: option.split)

lemma settled_onAddPortent: "settled sr fr st (onAddPortent j raw now rnd sr fr st)"
  unfolding onAddPortent_def
  by (intro settled_text_dialog) (simp add: settled_rules split: option.split)

lemma settled_onEditPortent: "settled sr fr st (onEditPortent j k raw sr fr st)"
  unfolding onEditPortent_def Let_def
  by (intro settled_text_dialog) (simp add: settled_rules split: option.split prod.split)

lemma settled_onDeletePortent: "settled sr fr st (onDeletePortent j k sr fr st)"
  unfolding onDeletePortent_def
  by (simp add: settled_rules split: option.split prod.split)

lemma settled_showAddSecretDialog: "settled sr fr st (showAddSecretDialog j x raw now rnd sr fr st)"
  unfolding showAddSecretDialog_def Let_def
  by (simp add: settled_rules split: option.split)

lemma settled_onEditSecret: "settled sr fr st (onEditSecret j k x raw sr fr st)"
  unfolding onEditSecret_def showEditSecretDialog_def Let_def
  by (simp add: settled_rules split: option.split prod.split)

lemma settled_onDeleteSecret: "settled sr fr st (onDeleteSecret j k sr fr st)"
  unfolding onDeleteSecret_def
  by (simp add: settled_rules split: option.split prod.split)

lemma settled_onAddLocation: "settled sr fr st (onAddLocation j raw sr fr st)"
  unfolding onAddLocation_def
  by (intro settled_text_dialog) (simp add: settled_rules split: option.split)

lemma settled_onEditLocation: "settled sr fr st (onEditLocation j n raw sr fr st)"
  unfolding onEditLocation_def Let_def
  by (intro settled_text_dialog) (simp add: settled_rules split: option.split prod.split)

lemma settled_onDeleteLocation: "settled sr fr st (onDeleteLocation j n sr fr st)"
  unfolding onDeleteLocation_def
  by (simp add: settled_rules split: option.split prod.split)

lemma persisted_with_expansion:
  assumes "frontsData stm \<noteq> None" and "effects stm = effects st"
    and "s2 = fetchFronts fr (snd (saveFronts sr stm))"
    and "effects s3 = effects s2" and "frontsData s3 = frontsData s2"
  shows "persisted sr fr st (notify_info m (render s3))"
proof -
  have "list_all is_info [NotifyInfo m]" by (simp add: is_info_def)
  moreover have "effects (notify_info m (render s3)) = effects (saveFetchRender sr fr stm) @ [NotifyInfo m]"
    using assms by (simp add: saveFetchRender_def)
  moreover have "frontsData (notify_info m (render s3)) = frontsData (saveFetchRender sr fr stm)"
    using assms by (simp add: saveFetchRender_def)
  ultimately show ?thesis unfolding persisted_def using assms(1,2) by blast
qed

lemma settled_showAddDangerDialog:
  "settled sr fr st (showAddDangerDialog i a b c d now rnd sr fr st)"
proof (cases "trim a \<noteq> [] \<and> getFront st i \<noteq> None")
  case False
  then show ?thesis
    by (auto simp: showAddDangerDialog_def Let_def settled_refl)
next
  case True
  then obtain f where f: "getFront st i = Some f" by blast
  then have nn: "\<And>g. frontsData (modifyFront i g st) \<noteq> None"
    by (auto simp: modifyFront_def dest: getFront_SomeD)
  show ?thesis
    unfolding settled_def showAddDangerDialog_def Let_def
    using True f
    by (auto intro!: persisted_with_expansion [OF nn _ refl] simp: modifyFront_def)
qed

lemma settled_or_uncaught_showAddFrontDialog:
  "settled sr fr st (showAddFrontDialog a t now rnd sr fr st) \<or>
   (\<exists>m. showAddFrontDialog a t now rnd sr fr st = uncaught m st)"
proof (cases "trim a = []")
  case True
  then show ?thesis by (simp add: showAddFrontDialog_def Let_def settled_refl)
next
  case False
  show ?thesis
  proof (cases "frontsData st")
    case None
    with False show ?thesis by (auto simp: showAddFrontDialog_def Let_def)
  next
    case (Some d)
    show ?thesis
    proof (cases "fronts d")
      case None
      with False Some show ?thesis by (auto simp: showAddFrontDialog_def Let_def)
    next
      case (Some fs)
      have nn: "\<And>g. frontsData (modifyFronts g st) \<noteq> None"
        using \<open>frontsData st = Some d\<close> by simp
      have "persisted sr fr st (showAddFrontDialog a t now rnd sr fr st)"
        using False Some \<open>frontsData st = Some d\<close>
        unfolding showAddFrontDialog_def Let_def
        by (auto intro!: persisted_with_expansion [OF nn _ refl])
      then show ?thesis by (simp add: settled_def)
    qed
  qed
qed

lemma perform_settled:
  "settled sr fr st (perform a sr fr st) \<or> (\<exists>m. perform a sr fr st = uncaught m st)"
proof (cases a)
  case (AddFront x1 x2 x3 x4)
  then show ?thesis using settled_or_uncaught_showAddFrontDialog by simp
qed (simp_all add: settled_onEditFrontName settled_onAddCast settled_onEditCast settled_onDeleteCast
      settled_onAddStake settled_onEditStake settled_onDeleteStake settled_showAddDangerDialog
      settled_showEditDangerDialog settled_onDeleteDanger settled_onEditImpulse settled_onEditDoom
      settled_onAddPortent settled_onEditPortent settled_onDeletePortent settled_showAddSecretDialog
      settled_onEditSecret settled_onDeleteSecret settled_onAddLocation settled_onEditLocation
      settled_onDeleteLocation)

subsection \<open>A failed save\<close>

lemma abandoned_no_save:
  assumes "abandoned st st'" shows "SaveCall p \<notin> set (issued st st')"
proof -
  from assms obtain tail where t: "list_all is_info tail" "st' = st\<lparr>effects := effects st @ tail\<rparr>"
    unfolding abandoned_def by blast
  then have "issued st st' = tail" by (simp add: issued_def)
  moreover have "SaveCall p \<notin> set tail"
    using t(1) by (auto simp: list_all_iff is_info_def)
  ultimately show ?thesis by simp
qed

lemma uncaught_no_save: "SaveCall p \<notin> set (issued st (uncaught m st))"
  by (simp add: uncaught_def issued_def)

lemma persisted_failed_save:
  assumes "persisted sr fr st st'" and "request_error sr = Some m"
  shows "\<exists>d tail. issued st st' =
            [SaveCall (fronts d), NotifyError ((js ''Fehler beim Speichern: '') @ m), FetchCall, Render] @ tail \<and>
          list_all is_info tail \<and>
          frontsData st' =
            (case request_error fr of
               Some e \<Rightarrow> Some d
             | None \<Rightarrow> (case response_json fr of BadJson e \<Rightarrow> Some d | JsonNull \<Rightarrow> None | JsonDoc d' \<Rightarrow> Some d'))"
proof -
  from assms(1) obtain stm tail where t: "frontsData stm \<noteq> None" "effects stm = effects st"
      "list_all is_info tail" "effects st' = effects (saveFetchRender sr fr stm) @ tail"
      "frontsData st' = frontsData (saveFetchRender sr fr stm)"
    unfolding persisted_def by blast
  from t(1) obtain d where d: "frontsData stm = Some d" by blast
  have e: "effects st' = effects st @
      ([SaveCall (fronts d), NotifyError ((js ''Fehler beim Speichern: '') @ m), FetchCall, Render] @ tail)"
    using t(2,4) assms(2) by (simp add: saveFetchRender_effects [OF d])
  have "issued st st' = [SaveCall (fronts d), NotifyError ((js ''Fehler beim Speichern: '') @ m), FetchCall, Render] @ tail"
    by (rule issued_append [OF e])
  moreover have "frontsData st' =
            (case request_error fr of
               Some e \<Rightarrow> Some d
             | None \<Rightarrow> (case response_json fr of BadJson e \<Rightarrow> Some d | JsonNull \<Rightarrow> None | JsonDoc d' \<Rightarrow> Some d'))"
    using t(5) d by (simp add: saveFetchRender_frontsData fetchFronts_frontsData split: option.split body.split)
  ultimately show ?thesis using t(3) by blast
qed

lemma add_cast_run:
  "onAddCast (js ''f1'') (js ''Bob'') failing_save failed_fetch example_state =
     example_state
       \<lparr>frontsData := Some \<lparr>fronts = Some [front_with_bob]\<rparr>,
        error := Some (js ''Verbindung zum Server fehlgeschlagen: Failed to fetch''),
        effects := [SaveCall (Some [front_with_bob]),
                    NotifyError (js ''Fehler beim Speichern: Server error: 500''),
                    FetchCall, Render, NotifyInfo (js ''Gespeichert'')]\<rparr>"
  by (simp add: onAddCast_def showEditTextDialog_def run_defs request_error_failing_save request_error_failed_fetch example_state_def
      example_front_def front_with_bob_def)

text \<open>
  C1, as the code has it. For every mutating action that issues the save request: if
  the save fails, the error notification \<^verbatim>\<open>Fehler beim Speichern: ...\<close> is shown, and
  the handler goes on to refetch the document and to re-render (the value
  \<^verbatim>\<open>#saveFronts\<close> returns is not consulted); nothing but informational notifications
  follows. The document that was sent, that is the mutated in-memory document, is still
  in place afterwards when that refetch fails as well (or its body cannot be parsed);
  when the refetch succeeds, the fetched document has replaced it.
\<close>

theorem failed_save_still_refetches:
  assumes "request_error sr = Some m"
    and "SaveCall p \<in> set (issued st (perform a sr fr st))"
  shows "\<exists>d tail.
           fronts d = p \<and>
           issued st (perform a sr fr st) =
             [SaveCall p, NotifyError ((js ''Fehler beim Speichern: '') @ m), FetchCall, Render] @ tail \<and>
           list_all is_info tail \<and>
           frontsData (perform a sr fr st) =
             (case request_error fr of
                Some e \<Rightarrow> Some d
              | None \<Rightarrow> (case response_json fr of BadJson e \<Rightarrow> Some d | JsonNull \<Rightarrow> None | JsonDoc d' \<Rightarrow> Some d'))"
proof -
  let ?s = "perform a sr fr st"
  from perform_settled [of sr fr st a] assms(2) have "persisted sr fr st ?s"
    using abandoned_no_save [where st = st and st' = ?s and p = p] uncaught_no_save [where p = p and st = st]
    by (auto simp: settled_def)
  from persisted_failed_save [OF this assms(1)] obtain d tail where
    h: "issued st ?s = [SaveCall (fronts d), NotifyError ((js ''Fehler beim Speichern: '') @ m), FetchCall, Render] @ tail"
       "list_all is_info tail"
       "frontsData ?s =
            (case request_error fr of
               Some e \<Rightarrow> Some d
             | None \<Rightarrow> (case response_json fr of BadJson e \<Rightarrow> Some d | JsonNull \<Rightarrow> None | JsonDoc d' \<Rightarrow> Some d'))"
    by blast
  have "SaveCall p \<notin> set tail" using h(2) by (auto simp: list_all_iff is_info_def)
  with assms(2) h(1) have "fronts d = p" by auto
  with h show ?thesis by blast
qed

theorem failed_save_still_refetches_witness:
  "request_error failing_save = Some (js ''Server error: 500'') \<and>
   SaveCall (Some [front_with_bob]) \<in>
     set (issued example_state (perform (AddCast (js ''f1'') (js ''Bob'')) failing_save failed_fetch example_state)) \<and>
   issued example_state (perform (AddCast (js ''f1'') (js ''Bob'')) failing_save failed_fetch example_state) =
     [SaveCall (Some [front_with_bob]), NotifyError (js ''Fehler beim Speichern: Server error: 500''),
      FetchCall, Render, NotifyInfo (js ''Gespeichert'')] \<and>
   frontsData (perform (AddCast (js ''f1'') (js ''Bob'')) failing_save failed_fetch example_state) =
     Some \<lparr>fronts = Some [front_with_bob]\<rparr>"
proof -
  have h1: "request_error failing_save = Some (js ''Server error: 500'')"
    by (rule request_error_failing_save)
  have h2: "SaveCall (Some [front_with_bob]) \<in>
     set (issued example_state (perform (AddCast (js ''f1'') (js ''Bob'')) failing_save failed_fetch example_state))"
    by (simp add: add_cast_run issued_def effects_example_state)
  from failed_save_still_refetches [OF h1 h2] obtain d tail where
    r: "fronts d = Some [front_with_bob]"
       "issued example_state (perform (AddCast (js ''f1'') (js ''Bob'')) failing_save failed_fetch example_state) =
          [SaveCall (Some [front_with_bob]), NotifyError ((js ''Fehler beim Speichern: '') @ (js ''Server error: 500'')),
           FetchCall, Render] @ tail"
       "frontsData (perform (AddCast (js ''f1'') (js ''Bob'')) failing_save failed_fetch example_state) =
          (case request_error failed_fetch of
             Some e \<Rightarrow> Some d
           | None \<Rightarrow> (case response_json failed_fetch of
                        BadJson e \<Rightarrow> Some d | JsonNull \<Rightarrow> None | JsonDoc d' \<Rightarrow> Some d'))"
    by blast
  from r(1) have "d = \<lparr>fronts = Some [front_with_bob]\<rparr>" by (cases d) simp
  with r(3) have "frontsData (perform (AddCast (js ''f1'') (js ''Bob'')) failing_save failed_fetch example_state) =
     Some \<lparr>fronts = Some [front_with_bob]\<rparr>"
    by (simp add: request_error_failed_fetch)
  moreover have "issued example_state (perform (AddCast (js ''f1'') (js ''Bob'')) failing_save failed_fetch example_state) =
     [SaveCall (Some [front_with_bob]), NotifyError (js ''Fehler beim Speichern: Server error: 500''),
      FetchCall, Render, NotifyInfo (js ''Gespeichert'')]"
    by (simp add: add_cast_run issued_def effects_example_state)
  ultimately show ?thesis using h1 h2 by simp
qed

text \<open>
  C1 as stated requires that after a failed save the document is not refetched, the
  window is not re-rendered and the mutation stays applied. Adding a cast line while the
  server answers the save with status 500 and the following fetch with a document: the
  fetch and the render are issued, and the fetched document, without the new cast line,
  is what the window holds afterwards.
\<close>

theorem failed_save_refetch_counterexample:
  "request_error failing_save = Some (js ''Server error: 500'') \<and>
   tl (issued example_state
        (perform (AddCast (js ''f1'') (js ''Bob'')) failing_save (HttpResponse True 200 (JsonDoc server_document))
           example_state)) =
     [NotifyError (js ''Fehler beim Speichern: Server error: 500''), FetchCall, Render, NotifyInfo (js ''Gespeichert'')] \<and>
   frontsData (perform (AddCast (js ''f1'') (js ''Bob'')) failing_save (HttpResponse True 200 (JsonDoc server_document))
           example_state) = Some server_document"
  by (simp add: request_error_failing_save onAddCast_def showEditTextDialog_def trim_Bob
      getFront_def example_state_def example_front_def modifyFront_def modifyFronts_def
      saveFetchRender_def saveFronts_def notify_error_def issued_def fetchFronts_def fetchFronts_try_def
      request_error_ok response_json_def render_def notify_info_def Let_def)

section \<open>Lookups that find nothing\<close>

subsection \<open>A dialog submitted in the state of its click\<close>

text \<open>
  Run in the state in which it was clicked, the callback of each of the eight dialogs
  does what the handler of \<open>perform\<close> does: the reference taken at the click is the
  first match in the current document.
\<close>

lemma first_index_append:
  "(\<forall>y\<in>set pre. \<not> P y) \<Longrightarrow> P x \<Longrightarrow> first_index P (pre @ x # post) = length pre"
  by (simp add: first_index_def takeWhile_append1 takeWhile_append2)

lemma modify_at_append: "modify_at (length pre) g (pre @ x # post) = pre @ g x # post"
  by (simp add: modify_at_def)

lemma modify_at_first_index: "modify_at (first_index P xs) g xs = modify_first P g xs"
proof (cases "find P xs")
  case None
  then have "\<forall>y\<in>set xs. \<not> P y" by (simp add: find_None_all)
  then have "first_index P xs = length xs" "modify_first P g xs = xs"
    by (induction xs) (simp_all add: first_index_def)
  then show ?thesis by (simp add: modify_at_def)
next
  case (Some x)
  then obtain pre post where p: "xs = pre @ x # post" "P x" "\<forall>y\<in>set pre. \<not> P y"
    by (auto simp: find_Some_split)
  then show ?thesis
    by (simp add: first_index_append modify_at_append modify_first_append)
qed

lemma assign_danger_frame:
  "assign_danger p g st = st\<lparr>frontsData := frontsData (assign_danger p g st)\<rparr>"
  by (simp add: assign_danger_def modifyFronts_def split: option.split prod.split)

lemma modifyDanger_frame:
  "modifyDanger j g st = st\<lparr>frontsData := frontsData (modifyDanger j g st)\<rparr>"
  by (simp add: modifyDanger_def modifyFronts_def)

lemma assign_front_click:
  "assign_front (Some (first_index (\<lambda>f. front_id f = i) (fronts_or_empty st))) g st =
   modifyFront i g st"
proof (cases "frontsData st")
  case None
  then show ?thesis by (simp add: assign_front_def modifyFront_def modifyFronts_def)
next
  case (Some d)
  then show ?thesis
    by (cases "fronts d")
       (simp_all add: assign_front_def modifyFront_def modifyFronts_def fronts_or_empty_def
          modify_at_first_index)
qed

lemma assign_danger_click:
  assumes "getDanger st j = Some (f, dg)"
  shows "assign_danger (Some (danger_place st j)) g st = modifyDanger j g st"
proof -
  from modifyDanger_doc [OF assms] obtain d pre post dpre dpost where
    d: "frontsData st = Some d" "fronts d = Some (pre @ f # post)"
       "dangers f = dpre @ dg # dpost" "danger_id dg = j"
       "\<forall>g\<in>set pre. \<forall>e\<in>set (dangers g). danger_id e \<noteq> j"
       "\<forall>e\<in>set dpre. danger_id e \<noteq> j"
       "\<forall>g. frontsData (modifyDanger j g st) =
              Some (d\<lparr>fronts := Some (pre @ f\<lparr>dangers := dpre @ g dg # dpost\<rparr> # post)\<rparr>)"
    by blast
  have fs: "fronts_or_empty st = pre @ f # post"
    using d(1,2) by (simp add: fronts_or_empty_def)
  have a: "\<forall>y\<in>set pre. \<not> (find (\<lambda>d. danger_id d = j) (dangers y) \<noteq> None)"
    using d(5) by (simp add: find_None_all)
  have b: "find (\<lambda>d. danger_id d = j) (dangers f) \<noteq> None"
    using d(3,4) by (simp add: find_None_all)
  have k: "first_index (\<lambda>f. find (\<lambda>d. danger_id d = j) (dangers f) \<noteq> None) (pre @ f # post) = length pre"
    by (rule first_index_append [OF a b])
  have l: "first_index (\<lambda>d. danger_id d = j) (dpre @ dg # dpost) = length dpre"
    using d(4,6) by (intro first_index_append) simp_all
  have place: "danger_place st j = (length pre, length dpre)"
    unfolding danger_place_def Let_def fs k by (simp add: d(3) l)
  have "frontsData (assign_danger (Some (danger_place st j)) g st) =
          Some (d\<lparr>fronts := Some (pre @ f\<lparr>dangers := dpre @ g dg # dpost\<rparr> # post)\<rparr>)"
    using d(1,2,3)
    by (simp add: place assign_danger_def modifyFronts_doc modify_at_append)
  with d(7) have eq: "frontsData (assign_danger (Some (danger_place st j)) g st) =
      frontsData (modifyDanger j g st)" by simp
  have "assign_danger (Some (danger_place st j)) g st =
        st\<lparr>frontsData := frontsData (assign_danger (Some (danger_place st j)) g st)\<rparr>"
    by (rule assign_danger_frame)
  also have "\<dots> = st\<lparr>frontsData := frontsData (modifyDanger j g st)\<rparr>"
    by (simp only: eq)
  also have "\<dots> = modifyDanger j g st"
    by (rule modifyDanger_frame [symmetric])
  finally show ?thesis .
qed

lemma modifyDanger_cong:
  assumes "getDanger st j = Some (f, dg)" and "g1 dg = g2 dg"
  shows "modifyDanger j g1 st = modifyDanger j g2 st"
proof -
  from modifyDanger_doc [OF assms(1)] obtain d pre post dpre dpost where
    "\<forall>g. frontsData (modifyDanger j g st) =
              Some (d\<lparr>fronts := Some (pre @ f\<lparr>dangers := dpre @ g dg # dpost\<rparr> # post)\<rparr>)"
    by blast
  with assms(2) have eq: "frontsData (modifyDanger j g1 st) = frontsData (modifyDanger j g2 st)"
    by simp
  have "modifyDanger j g1 st = st\<lparr>frontsData := frontsData (modifyDanger j g1 st)\<rparr>"
    by (rule modifyDanger_frame)
  also have "\<dots> = st\<lparr>frontsData := frontsData (modifyDanger j g2 st)\<rparr>"
    by (simp only: eq)
  also have "\<dots> = modifyDanger j g2 st"
    by (rule modifyDanger_frame [symmetric])
  finally show ?thesis .
qed

lemma perform_EditCast: "onEditCast i n raw sr fr st = onEditCast_callback (click_front st i) n raw sr fr st"
  by (cases "getFront st i")
     (simp_all add: onEditCast_def onEditCast_callback_def click_front_def showEditTextDialog_def
        Let_def assign_front_click split: option.split)

lemma perform_EditStake: "onEditStake i n raw sr fr st = onEditStake_callback (click_front st i) n raw sr fr st"
  by (cases "getFront st i")
     (simp_all add: onEditStake_def onEditStake_callback_def click_front_def showEditTextDialog_def
        Let_def assign_front_click split: option.split)

lemma perform_EditImpulse:
  "onEditImpulse j raw sr fr st = onEditImpulse_callback (click_danger st j) raw sr fr st"
proof (cases "getDanger st j")
  case None
  then show ?thesis
    by (simp add: onEditImpulse_def onEditImpulse_callback_def click_danger_def showEditTextDialog_def)
next
  case (Some r)
  then obtain f dg where r: "getDanger st j = Some (f, dg)" by (cases r) simp
  then show ?thesis
    by (simp add: onEditImpulse_def onEditImpulse_callback_def click_danger_def showEditTextDialog_def
        Let_def assign_danger_click [OF r])
qed

lemma perform_EditDoom:
  "onEditDoom j raw sr fr st = onEditDoom_callback (click_danger st j) raw sr fr st"
proof (cases "getDanger st j")
  case None
  then show ?thesis
    by (simp add: onEditDoom_def onEditDoom_callback_def click_danger_def showEditTextDialog_def)
next
  case (Some r)
  then obtain f dg where r: "getDanger st j = Some (f, dg)" by (cases r) simp
  then show ?thesis
    by (simp add: onEditDoom_def onEditDoom_callback_def click_danger_def showEditTextDialog_def
        Let_def assign_danger_click [OF r])
qed

lemma perform_EditLocation:
  "onEditLocation j n raw sr fr st = onEditLocation_callback (click_danger st j) n raw sr fr st"
proof (cases "getDanger st j")
  case None
  then show ?thesis
    by (simp add: onEditLocation_def onEditLocation_callback_def click_danger_def showEditTextDialog_def)
next
  case (Some r)
  then obtain f dg where r: "getDanger st j = Some (f, dg)" by (cases r) simp
  then show ?thesis
    by (simp add: onEditLocation_def onEditLocation_callback_def click_danger_def showEditTextDialog_def
        Let_def assign_danger_click [OF r] split: option.split)
qed

lemma perform_EditDanger:
  "showEditDangerDialog j a b c d sr fr st =
   showEditDangerDialog_callback (click_danger st j) a b c d sr fr st"
proof (cases "getDanger st j")
  case None
  then show ?thesis
    by (simp add: showEditDangerDialog_def showEditDangerDialog_callback_def click_danger_def)
next
  case (Some r)
  then obtain f dg where r: "getDanger st j = Some (f, dg)" by (cases r) simp
  then show ?thesis
    by (simp add: showEditDangerDialog_def showEditDangerDialog_callback_def click_danger_def
        assign_danger_click [OF r])
qed

lemma perform_EditPortent:
  "onEditPortent j k raw sr fr st = onEditPortent_callback (click_portent st j k) raw sr fr st"
proof (cases "getDanger st j")
  case None
  then show ?thesis
    by (simp add: onEditPortent_def onEditPortent_callback_def click_portent_def showEditTextDialog_def)
next
  case (Some r)
  then obtain f dg where r: "getDanger st j = Some (f, dg)" by (cases r) simp
  show ?thesis
  proof (cases "grimPortents dg")
    case None
    with r show ?thesis
      by (simp add: onEditPortent_def onEditPortent_callback_def click_portent_def showEditTextDialog_def)
  next
    case (Some ps)
    show ?thesis
    proof (cases "find (\<lambda>p. portent_id p = k) ps")
      case None
      with r Some show ?thesis
        by (simp add: onEditPortent_def onEditPortent_callback_def click_portent_def
            showEditTextDialog_def)
    next
      case (Some p)
      have e: "\<And>h. assign_portent
                (Some (fst (danger_place st j), snd (danger_place st j),
                       first_index (\<lambda>p. portent_id p = k) ps)) h st =
             modifyDanger j
               (\<lambda>d. d\<lparr>grimPortents :=
                        map_option (modify_first (\<lambda>p. portent_id p = k) h) (grimPortents d)\<rparr>) st"
      proof -
        fix h
        have "assign_portent
                (Some (fst (danger_place st j), snd (danger_place st j),
                       first_index (\<lambda>p. portent_id p = k) ps)) h st =
              modifyDanger j
               (\<lambda>d. d\<lparr>grimPortents :=
                        map_option (modify_at (first_index (\<lambda>p. portent_id p = k) ps) h)
                          (grimPortents d)\<rparr>) st"
          using assign_danger_click [OF r] by (simp add: assign_portent_def)
        also have "\<dots> = modifyDanger j
               (\<lambda>d. d\<lparr>grimPortents :=
                        map_option (modify_first (\<lambda>p. portent_id p = k) h) (grimPortents d)\<rparr>) st"
          by (rule modifyDanger_cong [OF r])
             (simp add: \<open>grimPortents dg = Some ps\<close> modify_at_first_index)
        finally show "assign_portent
                (Some (fst (danger_place st j), snd (danger_place st j),
                       first_index (\<lambda>p. portent_id p = k) ps)) h st =
             modifyDanger j
               (\<lambda>d. d\<lparr>grimPortents :=
                        map_option (modify_first (\<lambda>p. portent_id p = k) h) (grimPortents d)\<rparr>) st" .
      qed
      from r \<open>grimPortents dg = Some ps\<close> Some show ?thesis
        by (simp add: onEditPortent_def onEditPortent_callback_def click_portent_def
            showEditTextDialog_def Let_def e)
    qed
  qed
qed

lemma perform_EditSecret:
  "onEditSecret j k x raw sr fr st = showEditSecretDialog_callback (click_secret st j k) x raw sr fr st"
proof (cases "getDanger st j")
  case None
  then show ?thesis
    by (simp add: onEditSecret_def showEditSecretDialog_def showEditSecretDialog_callback_def
        click_secret_def)
next
  case (Some r)
  then obtain f dg where r: "getDanger st j = Some (f, dg)" by (cases r) simp
  show ?thesis
  proof (cases "secrets dg")
    case None
    with r show ?thesis
      by (simp add: onEditSecret_def showEditSecretDialog_def showEditSecretDialog_callback_def
          click_secret_def)
  next
    case (Some ss)
    show ?thesis
    proof (cases "find (\<lambda>s. secret_id s = k) ss")
      case None
      with r Some show ?thesis
        by (simp add: onEditSecret_def showEditSecretDialog_def showEditSecretDialog_callback_def
            click_secret_def)
    next
      case (Some s0)
      then have id: "secret_id s0 = k" by (auto simp: find_Some_split)
      have e: "\<And>h. assign_secret
                (Some (fst (danger_place st j), snd (danger_place st j),
                       first_index (\<lambda>s. secret_id s = k) ss)) h st =
             modifyDanger j
               (\<lambda>d. d\<lparr>secrets :=
                        map_option (modify_first (\<lambda>s. secret_id s = k) h) (secrets d)\<rparr>) st"
      proof -
        fix h
        have "assign_secret
                (Some (fst (danger_place st j), snd (danger_place st j),
                       first_index (\<lambda>s. secret_id s = k) ss)) h st =
              modifyDanger j
               (\<lambda>d. d\<lparr>secrets :=
                        map_option (modify_at (first_index (\<lambda>s. secret_id s = k) ss) h)
                          (secrets d)\<rparr>) st"
          using assign_danger_click [OF r] by (simp add: assign_secret_def)
        also have "\<dots> = modifyDanger j
               (\<lambda>d. d\<lparr>secrets :=
                        map_option (modify_first (\<lambda>s. secret_id s = k) h) (secrets d)\<rparr>) st"
          by (rule modifyDanger_cong [OF r])
             (simp add: \<open>secrets dg = Some ss\<close> modify_at_first_index)
        finally show "assign_secret
                (Some (fst (danger_place st j), snd (danger_place st j),
                       first_index (\<lambda>s. secret_id s = k) ss)) h st =
             modifyDanger j
               (\<lambda>d. d\<lparr>secrets :=
                        map_option (modify_first (\<lambda>s. secret_id s = k) h) (secrets d)\<rparr>) st" .
      qed
      from r \<open>secrets dg = Some ss\<close> Some id show ?thesis
        by (simp add: onEditSecret_def showEditSecretDialog_def showEditSecretDialog_callback_def
            click_secret_def e)
    qed
  qed
qed

lemma perform_click_callback: "perform a sr fr st = callback a (click a st) sr fr st"
  by (cases a)
     (simp_all add: no_reference_def perform_EditCast perform_EditStake perform_EditImpulse
        perform_EditDoom perform_EditLocation perform_EditDanger perform_EditPortent
        perform_EditSecret)

lemma not_found_simps:
  "(\<not> found st NoLookup) = False"
  "(\<not> found st (FrontLookup i)) = (getFront st i = None)"
  "(\<not> found st (DangerLookup j)) = (getDanger st j = None)"
  by (cases "getDanger st j"; simp add: found_def)+

subsection \<open>Abandoned actions\<close>

text \<open>
  C8, as the code has it. For every mutating action: if the lookup the handler makes
  with \<^verbatim>\<open>#getFront\<close> or \<^verbatim>\<open>#getDanger\<close> finds nothing, in the document it is made in
  (the document at the click for the eight actions that look up before their dialog
  opens, the current document for the others), the action is abandoned whatever the
  document is when it runs. The state is unchanged, so no mutation is applied; no save
  request, no fetch, no render and no error notification is issued. The only thing
  the user may see is the notification \<^verbatim>\<open>Gespeichert\<close> that the text dialog shows after
  its callback.
\<close>

theorem failed_lookup_abandons:
  "\<not> found (lookup_state a st0 st) (lookup_of a) \<Longrightarrow>
   callback a (click a st0) sr fr st = st \<or>
   callback a (click a st0) sr fr st = notify_info (js ''Gespeichert'') st"
  by (cases a)
     (simp_all add: lookup_state_def not_found_simps no_reference_def
       click_front_def click_danger_def click_portent_def click_secret_def
       onEditCast_callback_def onEditStake_callback_def onEditImpulse_callback_def
       onEditDoom_callback_def onEditLocation_callback_def onEditPortent_callback_def
       showEditDangerDialog_callback_def showEditSecretDialog_callback_def
       onEditFrontName_def onAddCast_def onDeleteCast_def
       onAddStake_def onDeleteStake_def showAddDangerDialog_def
       onDeleteDanger_def onAddPortent_def
       onDeletePortent_def showAddSecretDialog_def
       onDeleteSecret_def onAddLocation_def onDeleteLocation_def
       showEditTextDialog_def Let_def)

theorem failed_lookup_abandons_witness:
  "\<not> found (lookup_state (EditFrontName (js ''f2'') (js ''Renamed'')) replaced_state example_state)
       (lookup_of (EditFrontName (js ''f2'') (js ''Renamed''))) \<and>
   callback (EditFrontName (js ''f2'') (js ''Renamed''))
       (click (EditFrontName (js ''f2'') (js ''Renamed'')) replaced_state)
       ok_save failed_fetch example_state =
     notify_info (js ''Gespeichert'') example_state \<and>
   \<not> found (lookup_state (EditCast (js ''f1'') 0 (js ''Bob'')) replaced_state example_state)
       (lookup_of (EditCast (js ''f1'') 0 (js ''Bob''))) \<and>
   callback (EditCast (js ''f1'') 0 (js ''Bob''))
       (click (EditCast (js ''f1'') 0 (js ''Bob'')) replaced_state)
       ok_save failed_fetch example_state =
     notify_info (js ''Gespeichert'') example_state \<and>
   \<not> found (lookup_state (DeleteLocation (js ''d2'') 0) replaced_state example_state)
       (lookup_of (DeleteLocation (js ''d2'') 0)) \<and>
   callback (DeleteLocation (js ''d2'') 0) (click (DeleteLocation (js ''d2'') 0) replaced_state)
       ok_save failed_fetch example_state = example_state"
proof -
  let ?a1 = "EditFrontName (js ''f2'') (js ''Renamed'')"
  let ?a2 = "EditCast (js ''f1'') 0 (js ''Bob'')"
  let ?a3 = "DeleteLocation (js ''d2'') 0"
  have n1: "\<not> found (lookup_state ?a1 replaced_state example_state) (lookup_of ?a1)"
    by (simp add: lookup_state_def found_def getFront_def example_defs)
  have n2: "\<not> found (lookup_state ?a2 replaced_state example_state) (lookup_of ?a2)"
    by (simp add: lookup_state_def found_def getFront_def replaced_state_def server_document_def
        example_state_def)
  have n3: "\<not> found (lookup_state ?a3 replaced_state example_state) (lookup_of ?a3)"
    by (simp add: lookup_state_def found_def getDanger_def fronts_or_empty_def example_defs)
  have d: "notify_info (js ''Gespeichert'') example_state \<noteq> example_state"
    by (simp add: notify_info_def example_state_def)
  have t: "trim (js ''Renamed'') \<noteq> []" "trim (js ''Bob'') \<noteq> []"
    by (simp_all add: trim_def is_space_def js_def)
  have d1: "callback ?a1 (click ?a1 replaced_state) ok_save failed_fetch example_state \<noteq> example_state"
    using t(1) d
    by (simp add: onEditFrontName_def showEditTextDialog_def getFront_def example_defs Let_def)
  have d2: "callback ?a2 (click ?a2 replaced_state) ok_save failed_fetch example_state \<noteq> example_state"
    using t(2) d
    by (simp add: onEditCast_callback_def click_front_def no_reference_def showEditTextDialog_def
        getFront_def replaced_state_def server_document_def Let_def)
  have d3: "callback ?a3 (click ?a3 replaced_state) ok_save failed_fetch example_state \<noteq>
            notify_info (js ''Gespeichert'') example_state"
    using d
    by (simp add: onDeleteLocation_def getDanger_def fronts_or_empty_def example_defs)
  from failed_lookup_abandons [OF n1, of ok_save failed_fetch] d1
  have c1: "callback ?a1 (click ?a1 replaced_state) ok_save failed_fetch example_state =
     notify_info (js ''Gespeichert'') example_state" by blast
  from failed_lookup_abandons [OF n2, of ok_save failed_fetch] d2
  have c2: "callback ?a2 (click ?a2 replaced_state) ok_save failed_fetch example_state =
     notify_info (js ''Gespeichert'') example_state" by blast
  from failed_lookup_abandons [OF n3, of ok_save failed_fetch] d3
  have c3: "callback ?a3 (click ?a3 replaced_state) ok_save failed_fetch example_state = example_state"
    by blast
  from n1 n2 n3 c1 c2 c3 show ?thesis by blast
qed

text \<open>
  C8 as stated abandons an action whenever its front or danger no longer exists.
  Deleting a danger looks up the front only: with the front present and no danger of
  the given identifier, the confirmed deletion filters nothing out and still saves,
  fetches and renders.
\<close>

theorem vanished_danger_still_saved_counterexample:
  "getFront example_state (js ''f1'') = Some example_front \<and>
   getDanger example_state (js ''d2'') = None \<and>
   issued example_state
     (perform (DeleteDanger (js ''f1'') (js ''d2'') True) ok_save failed_fetch example_state) =
     [SaveCall (Some [example_front]), FetchCall, Render]"
  by (simp add: onDeleteDanger_def run_defs request_error_ok_save request_error_failed_fetch
      example_defs)

text \<open>
  Likewise a callback that holds a reference from its click goes on to save when the
  object has meanwhile left the document: the assignment is lost and the current
  document is sent.
\<close>

lemma detached_reference_still_saves:
  "getFront replaced_state (js ''f1'') = None \<and>
   issued replaced_state
     (callback (EditCast (js ''f1'') 0 (js ''Bob'')) detached_front ok_save failed_fetch
        replaced_state) =
     [SaveCall (Some []), FetchCall, Render, NotifyInfo (js ''Gespeichert'')]"
  by (simp add: onEditCast_callback_def detached_front_def no_reference_def assign_front_def
      showEditTextDialog_def run_defs request_error_ok_save request_error_failed_fetch
      replaced_state_def server_document_def example_defs)

section \<open>Deleting a danger\<close>

lemma issued_saveFetchRender:
  assumes "frontsData stm = Some d" and "effects stm = effects st"
  shows "\<exists>tail. issued st (saveFetchRender sr fr stm) = SaveCall (fronts d) # tail"
  using assms by (simp add: saveFetchRender_effects [OF assms(1)])

lemma issued_info:
  "\<exists>tail. issued st s = e # tail \<Longrightarrow> \<exists>tail. issued st (notify_info m s) = e # tail"
  by (auto simp: issued_def)

lemma issued_explicit:
  assumes "frontsData stm = Some d" and "effects stm = effects st"
    and "effects s3 = effects (fetchFronts fr (snd (saveFronts sr stm)))"
  shows "\<exists>tail. issued st (notify_info m (render s3)) = SaveCall (fronts d) # tail"
  using assms by (simp add: saveFronts_effects [OF assms(1)])

text \<open>
  C4. Deleting a danger asks for confirmation. When the confirmation is refused, the
  state is unchanged: the document and its dangers are as before and nothing is issued,
  in particular no save request. When it is given and the front is found, the first
  thing issued is the save request, and the document it sends is the current one with
  the dangers of that identifier removed from that front.
\<close>

theorem delete_danger_needs_confirmation:
  "onDeleteDanger frontId dangerId False sr fr st = st \<and>
   (getFront st frontId = Some f \<longrightarrow>
     (\<exists>pre post tail.
        fronts_or_empty st = pre @ f # post \<and> (\<forall>g\<in>set pre. front_id g \<noteq> frontId) \<and>
        issued st (onDeleteDanger frontId dangerId True sr fr st) =
          SaveCall (Some (pre @ f\<lparr>dangers := filter (\<lambda>d. danger_id d \<noteq> dangerId) (dangers f)\<rparr> # post))
            # tail))"
proof (intro conjI impI)
  show "onDeleteDanger frontId dangerId False sr fr st = st"
    by (simp add: onDeleteDanger_def)
next
  assume g: "getFront st frontId = Some f"
  let ?g = "\<lambda>f. f\<lparr>dangers := filter (\<lambda>d. danger_id d \<noteq> dangerId) (dangers f)\<rparr>"
  from modifyFront_doc [OF g] obtain d pre post where
    d: "frontsData st = Some d" "fronts d = Some (pre @ f # post)" "\<forall>g\<in>set pre. front_id g \<noteq> frontId"
       "frontsData (modifyFront frontId ?g st) = Some (d\<lparr>fronts := Some (pre @ ?g f # post)\<rparr>)"
    by blast
  have e: "effects (modifyFront frontId ?g st) = effects st" by (simp add: modifyFront_def)
  from issued_saveFetchRender [OF d(4) e, of sr fr] obtain tail where
    "issued st (saveFetchRender sr fr (modifyFront frontId ?g st)) = SaveCall (Some (pre @ ?g f # post)) # tail"
    by auto
  then have "issued st (onDeleteDanger frontId dangerId True sr fr st) = SaveCall (Some (pre @ ?g f # post)) # tail"
    using g by (simp add: onDeleteDanger_def)
  with d(3) fronts_or_empty_doc [OF d(1,2)] show "\<exists>pre post tail.
        fronts_or_empty st = pre @ f # post \<and> (\<forall>g\<in>set pre. front_id g \<noteq> frontId) \<and>
        issued st (onDeleteDanger frontId dangerId True sr fr st) =
          SaveCall (Some (pre @ f\<lparr>dangers := filter (\<lambda>d. danger_id d \<noteq> dangerId) (dangers f)\<rparr> # post))
            # tail" by blast
qed

theorem delete_danger_needs_confirmation_witness:
  "getFront example_state (js ''f1'') = Some example_front \<and>
   onDeleteDanger (js ''f1'') (js ''d1'') False ok_save failed_fetch example_state = example_state \<and>
   hd (issued example_state (onDeleteDanger (js ''f1'') (js ''d1'') True ok_save failed_fetch example_state)) =
     SaveCall (Some [example_front\<lparr>dangers := []\<rparr>])"
proof -
  have g: "getFront example_state (js ''f1'') = Some example_front"
    by (simp add: getFront_def example_state_def example_front_def)
  note t = delete_danger_needs_confirmation [of "(js ''f1'')" "(js ''d1'')" ok_save failed_fetch example_state example_front]
  from t g obtain pre post tail where
    p: "fronts_or_empty example_state = pre @ example_front # post"
       "issued example_state (onDeleteDanger (js ''f1'') (js ''d1'') True ok_save failed_fetch example_state) =
          SaveCall (Some (pre @ example_front\<lparr>dangers := filter (\<lambda>d. danger_id d \<noteq> (js ''d1'')) (dangers example_front)\<rparr> # post))
            # tail"
    by blast
  have "fronts_or_empty example_state = [example_front]"
    by (simp add: fronts_or_empty_def example_state_def)
  with p(1) have "pre = [] \<and> post = []" by (cases pre) simp_all
  with p(2) have "hd (issued example_state (onDeleteDanger (js ''f1'') (js ''d1'') True ok_save failed_fetch example_state)) =
     SaveCall (Some [example_front\<lparr>dangers := []\<rparr>])"
    by (simp add: example_front_def example_danger_def)
  with t g show ?thesis by blast
qed

section \<open>Created entities\<close>

text \<open>
  C7, as the code has it. What a creating dialog saves is the document with the new
  entity appended. A new front has the trimmed name, the chosen type, and empty cast,
  stakes, player hooks and dangers. A new danger has the trimmed name; its type, impulse
  and doom are the trimmed field values, or \<^verbatim>\<open>Unknown\<close>, \<^verbatim>\<open>to cause chaos\<close> and
  \<^verbatim>\<open>Destruction\<close> where a field was left blank; its grim portents, secrets and
  locations are empty. A new secret has the chosen experience value and the trimmed
  text, is not revealed, and has no reveal time.
\<close>

theorem created_entities_defaults:
  "(trim name_raw \<noteq> [] \<longrightarrow> frontsData st = Some d \<longrightarrow> fronts d = Some fs \<longrightarrow>
      (\<exists>tail. issued st (showAddFrontDialog name_raw type_choice now rnd sr fr st) =
         SaveCall (Some (fs @
           [\<lparr>front_id = generateId (js ''front'') now rnd, front_name = trim name_raw,
             front_type = front_type_value type_choice,
             cast = Some [], stakes = Some [], playerHooks = Some [], dangers = []\<rparr>])) # tail)) \<and>
   (trim name_raw \<noteq> [] \<longrightarrow> getFront st frontId = Some f \<longrightarrow>
      (\<exists>pre post tail.
         fronts_or_empty st = pre @ f # post \<and> (\<forall>g\<in>set pre. front_id g \<noteq> frontId) \<and>
         issued st (showAddDangerDialog frontId name_raw type_raw impulse_raw doom_raw now rnd sr fr st) =
           SaveCall (Some (pre @ f\<lparr>dangers := dangers f @
             [\<lparr>danger_id = generateId (js ''danger'') now rnd, danger_name = trim name_raw,
               dangerType = (if trim type_raw \<noteq> [] then trim type_raw else (js ''Unknown'')),
               impulse = (if trim impulse_raw \<noteq> [] then trim impulse_raw else (js ''to cause chaos'')),
               impendingDoom = (if trim doom_raw \<noteq> [] then trim doom_raw else (js ''Destruction'')),
               grimPortents = Some [], secrets = Some [], locations = Some []\<rparr>]\<rparr> # post)) # tail)) \<and>
   (trim text_in \<noteq> [] \<longrightarrow> getDanger st dangerId = Some (f, dg) \<longrightarrow>
      (\<exists>pre post dpre dpost tail.
         fronts_or_empty st = pre @ f # post \<and> dangers f = dpre @ dg # dpost \<and>
         issued st (showAddSecretDialog dangerId xp_choice text_in now rnd sr fr st) =
           SaveCall (Some (pre @ f\<lparr>dangers := dpre @ dg\<lparr>secrets :=
             Some ((case secrets dg of None \<Rightarrow> [] | Some ss \<Rightarrow> ss) @
               [\<lparr>secret_id = generateId (js ''secret'') now rnd, xp = xp_value xp_choice,
                 secret_text = trim text_in, revealed = False, revealedAt = None\<rparr>])\<rparr> # dpost\<rparr> # post))
           # tail))"
proof (intro conjI impI)
  assume n: "trim name_raw \<noteq> []" and d: "frontsData st = Some d" "fronts d = Some fs"
  let ?nf = "\<lparr>front_id = generateId (js ''front'') now rnd, front_name = trim name_raw,
             front_type = front_type_value type_choice,
             cast = Some [], stakes = Some [], playerHooks = Some [], dangers = []\<rparr>"
  let ?stm = "modifyFronts (\<lambda>fs. fs @ [?nf]) st"
  have m: "frontsData ?stm = Some (d\<lparr>fronts := Some (fs @ [?nf])\<rparr>)"
    using d by (simp add: modifyFronts_doc)
  have e: "effects ?stm = effects st" by simp
  let ?s2 = "fetchFronts fr (snd (saveFronts sr ?stm))"
  have "\<exists>tail. issued st (notify_info ((js ''Front '') @ js [CHR 0x22] @ trim name_raw @ js [CHR 0x22] @ (js '' erstellt''))
          (render (?s2\<lparr>expandedFronts := insert (front_id ?nf) (expandedFronts ?s2)\<rparr>))) =
        SaveCall (fronts (d\<lparr>fronts := Some (fs @ [?nf])\<rparr>)) # tail"
    by (rule issued_explicit [OF m e]) simp
  then show "\<exists>tail. issued st (showAddFrontDialog name_raw type_choice now rnd sr fr st) =
         SaveCall (Some (fs @ [?nf])) # tail"
    using n d by (simp add: showAddFrontDialog_def Let_def)
next
  assume n: "trim name_raw \<noteq> []" and g: "getFront st frontId = Some f"
  let ?nd = "\<lparr>danger_id = generateId (js ''danger'') now rnd, danger_name = trim name_raw,
               dangerType = (if trim type_raw \<noteq> [] then trim type_raw else (js ''Unknown'')),
               impulse = (if trim impulse_raw \<noteq> [] then trim impulse_raw else (js ''to cause chaos'')),
               impendingDoom = (if trim doom_raw \<noteq> [] then trim doom_raw else (js ''Destruction'')),
               grimPortents = Some [], secrets = Some [], locations = Some []\<rparr>"
  let ?g = "\<lambda>f. f\<lparr>dangers := dangers f @ [?nd]\<rparr>"
  let ?stm = "modifyFront frontId ?g st"
  from modifyFront_doc [OF g] obtain d pre post where
    d: "frontsData st = Some d" "fronts d = Some (pre @ f # post)" "\<forall>g\<in>set pre. front_id g \<noteq> frontId"
       "frontsData ?stm = Some (d\<lparr>fronts := Some (pre @ ?g f # post)\<rparr>)"
    by blast
  have e: "effects ?stm = effects st" by (simp add: modifyFront_def)
  let ?s2 = "fetchFronts fr (snd (saveFronts sr ?stm))"
  have "\<exists>tail. issued st (notify_info ((js ''Danger '') @ js [CHR 0x22] @ trim name_raw @ js [CHR 0x22] @ (js '' erstellt''))
          (render (?s2\<lparr>expandedDangers := insert (danger_id ?nd) (expandedDangers ?s2)\<rparr>))) =
        SaveCall (fronts (d\<lparr>fronts := Some (pre @ ?g f # post)\<rparr>)) # tail"
    by (rule issued_explicit [OF d(4) e]) simp
  then have "\<exists>tail. issued st (showAddDangerDialog frontId name_raw type_raw impulse_raw doom_raw now rnd sr fr st) =
         SaveCall (Some (pre @ ?g f # post)) # tail"
    using n g by (simp add: showAddDangerDialog_def Let_def)
  with d(3) fronts_or_empty_doc [OF d(1,2)] show "\<exists>pre post tail.
         fronts_or_empty st = pre @ f # post \<and> (\<forall>g\<in>set pre. front_id g \<noteq> frontId) \<and>
         issued st (showAddDangerDialog frontId name_raw type_raw impulse_raw doom_raw now rnd sr fr st) =
           SaveCall (Some (pre @ f\<lparr>dangers := dangers f @ [?nd]\<rparr> # post)) # tail" by blast
next
  assume n: "trim text_in \<noteq> []" and g: "getDanger st dangerId = Some (f, dg)"
  let ?g = "\<lambda>d. d\<lparr>secrets := Some ((case secrets d of None \<Rightarrow> [] | Some ss \<Rightarrow> ss) @
               [\<lparr>secret_id = generateId (js ''secret'') now rnd, xp = xp_value xp_choice,
                 secret_text = trim text_in, revealed = False, revealedAt = None\<rparr>])\<rparr>"
  let ?stm = "modifyDanger dangerId ?g st"
  from modifyDanger_doc [OF g] obtain d pre post dpre dpost where
    d: "frontsData st = Some d" "fronts d = Some (pre @ f # post)" "dangers f = dpre @ dg # dpost"
       "frontsData ?stm = Some (d\<lparr>fronts := Some (pre @ f\<lparr>dangers := dpre @ ?g dg # dpost\<rparr> # post)\<rparr>)"
    by blast
  have e: "effects ?stm = effects st" by (simp add: modifyDanger_def)
  from issued_saveFetchRender [OF d(4) e, of sr fr] have
    "\<exists>tail. issued st (saveFetchRender sr fr ?stm) =
       SaveCall (Some (pre @ f\<lparr>dangers := dpre @ ?g dg # dpost\<rparr> # post)) # tail"
    by simp
  then have "\<exists>tail. issued st (notify_info (js ''Secret erstellt'') (saveFetchRender sr fr ?stm)) =
       SaveCall (Some (pre @ f\<lparr>dangers := dpre @ ?g dg # dpost\<rparr> # post)) # tail"
    by (rule issued_info)
  then have "\<exists>tail. issued st (showAddSecretDialog dangerId xp_choice text_in now rnd sr fr st) =
       SaveCall (Some (pre @ f\<lparr>dangers := dpre @ ?g dg # dpost\<rparr> # post)) # tail"
    using n g by (simp add: showAddSecretDialog_def Let_def)
  with fronts_or_empty_doc [OF d(1,2)] d(3) show "\<exists>pre post dpre dpost tail.
         fronts_or_empty st = pre @ f # post \<and> dangers f = dpre @ dg # dpost \<and>
         issued st (showAddSecretDialog dangerId xp_choice text_in now rnd sr fr st) =
           SaveCall (Some (pre @ f\<lparr>dangers := dpre @ dg\<lparr>secrets :=
             Some ((case secrets dg of None \<Rightarrow> [] | Some ss \<Rightarrow> ss) @
               [\<lparr>secret_id = generateId (js ''secret'') now rnd, xp = xp_value xp_choice,
                 secret_text = trim text_in, revealed = False, revealedAt = None\<rparr>])\<rparr> # dpost\<rparr> # post))
           # tail" by blast
qed

theorem created_entities_defaults_witness:
  "hd (issued empty_state
        (showAddFrontDialog (js ''The Hollow King'') Campaign 17 (js ''k3x9'') ok_save failed_fetch empty_state)) =
     SaveCall (Some [hollow_king]) \<and>
   hd (issued (state_with [hollow_king])
        (showAddDangerDialog (js ''front-17-k3x9'') (js ''Cult of Ash'') (js ''Ambitious Organizations'')
           (js ''to spread corruption'') (js ''Usurpation'') 17 (js ''k3x9'') ok_save failed_fetch
           (state_with [hollow_king]))) =
     SaveCall (Some [hollow_king\<lparr>dangers := [cult_of_ash]\<rparr>]) \<and>
   hd (issued (state_with [hollow_king\<lparr>dangers := [cult_of_ash]\<rparr>])
        (showAddSecretDialog (js ''danger-17-k3x9'') XP30 (js ''The cult leader is the mayor'') 17 (js ''k3x9'')
           ok_save failed_fetch (state_with [hollow_king\<lparr>dangers := [cult_of_ash]\<rparr>]))) =
     SaveCall (Some [hollow_king\<lparr>dangers := [cult_of_ash\<lparr>secrets := Some [mayor_secret]\<rparr>]\<rparr>])"
proof -
  let ?s1 = "state_with [hollow_king]"
  let ?s2 = "state_with [hollow_king\<lparr>dangers := [cult_of_ash]\<rparr>]"
  note t = created_entities_defaults
  have a1: "trim (js ''The Hollow King'') \<noteq> []" "trim (js ''Cult of Ash'') \<noteq> []"
    "trim (js ''The cult leader is the mayor'') \<noteq> []"
    by (simp_all add: trim_examples)
  have a2: "frontsData empty_state = Some \<lparr>fronts = Some []\<rparr>" "fronts \<lparr>fronts = Some []\<rparr> = Some []"
    by (simp_all add: empty_state_def)
  have a3: "getFront ?s1 (js ''front-17-k3x9'') = Some hollow_king"
    by (simp add: getFront_def state_with_def hollow_king_def)
  have a4: "getDanger ?s2 (js ''danger-17-k3x9'') = Some (hollow_king\<lparr>dangers := [cult_of_ash]\<rparr>, cult_of_ash)"
    by (simp add: getDanger_def fronts_or_empty_def state_with_def cult_of_ash_def)
  have f1: "fronts_or_empty ?s1 = [hollow_king]"
    and f2: "fronts_or_empty ?s2 = [hollow_king\<lparr>dangers := [cult_of_ash]\<rparr>]"
    by (simp_all add: fronts_or_empty_def state_with_def)
  from t [where name_raw = "(js ''The Hollow King'')" and st = empty_state and type_choice = Campaign
        and now = 17 and rnd = "(js ''k3x9'')" and sr = ok_save and fr = failed_fetch,
        THEN conjunct1, rule_format, OF a1(1) a2]
  have c1: "hd (issued empty_state
        (showAddFrontDialog (js ''The Hollow King'') Campaign 17 (js ''k3x9'') ok_save failed_fetch empty_state)) =
     SaveCall (Some [hollow_king])"
    by (auto simp: hollow_king_def trim_examples generateId_def show_nat_17 front_type_value_def)
  from t [where name_raw = "(js ''Cult of Ash'')" and st = "?s1" and frontId = "(js ''front-17-k3x9'')"
        and f = hollow_king and type_raw = "(js ''Ambitious Organizations'')"
        and impulse_raw = "(js ''to spread corruption'')" and doom_raw = "(js ''Usurpation'')"
        and now = 17 and rnd = "(js ''k3x9'')" and sr = ok_save and fr = failed_fetch,
        THEN conjunct2, THEN conjunct1, rule_format, OF a1(2) a3]
  obtain pre post tail where
    p: "fronts_or_empty ?s1 = pre @ hollow_king # post"
       "issued ?s1 (showAddDangerDialog (js ''front-17-k3x9'') (js ''Cult of Ash'') (js ''Ambitious Organizations'')
           (js ''to spread corruption'') (js ''Usurpation'') 17 (js ''k3x9'') ok_save failed_fetch ?s1) =
        SaveCall (Some (pre @ hollow_king\<lparr>dangers := dangers hollow_king @
             [\<lparr>danger_id = generateId (js ''danger'') 17 (js ''k3x9''), danger_name = trim (js ''Cult of Ash''),
               dangerType = (if trim (js ''Ambitious Organizations'') \<noteq> [] then trim (js ''Ambitious Organizations'') else (js ''Unknown'')),
               impulse = (if trim (js ''to spread corruption'') \<noteq> [] then trim (js ''to spread corruption'') else (js ''to cause chaos'')),
               impendingDoom = (if trim (js ''Usurpation'') \<noteq> [] then trim (js ''Usurpation'') else (js ''Destruction'')),
               grimPortents = Some [], secrets = Some [], locations = Some []\<rparr>]\<rparr> # post)) # tail"
    by blast
  from p(1) f1 have "pre = [] \<and> post = []" by (cases pre) simp_all
  with p(2) have c2: "hd (issued ?s1
        (showAddDangerDialog (js ''front-17-k3x9'') (js ''Cult of Ash'') (js ''Ambitious Organizations'')
           (js ''to spread corruption'') (js ''Usurpation'') 17 (js ''k3x9'') ok_save failed_fetch ?s1)) =
     SaveCall (Some [hollow_king\<lparr>dangers := [cult_of_ash]\<rparr>])"
    by (simp add: trim_examples generateId_def show_nat_17 cult_of_ash_def hollow_king_def)
  from t [where text_in = "(js ''The cult leader is the mayor'')" and st = "?s2"
        and dangerId = "(js ''danger-17-k3x9'')" and f = "hollow_king\<lparr>dangers := [cult_of_ash]\<rparr>"
        and dg = cult_of_ash and xp_choice = XP30
        and now = 17 and rnd = "(js ''k3x9'')" and sr = ok_save and fr = failed_fetch,
        THEN conjunct2, THEN conjunct2, rule_format, OF a1(3) a4]
  obtain pre post dpre dpost tail where
    q: "fronts_or_empty ?s2 = pre @ hollow_king\<lparr>dangers := [cult_of_ash]\<rparr> # post"
       "dangers (hollow_king\<lparr>dangers := [cult_of_ash]\<rparr>) = dpre @ cult_of_ash # dpost"
       "issued ?s2 (showAddSecretDialog (js ''danger-17-k3x9'') XP30 (js ''The cult leader is the mayor'') 17 (js ''k3x9'')
           ok_save failed_fetch ?s2) =
        SaveCall (Some (pre @ hollow_king\<lparr>dangers := [cult_of_ash]\<rparr>\<lparr>dangers := dpre @ cult_of_ash\<lparr>secrets :=
             Some ((case secrets cult_of_ash of None \<Rightarrow> [] | Some ss \<Rightarrow> ss) @
               [\<lparr>secret_id = generateId (js ''secret'') 17 (js ''k3x9''), xp = xp_value XP30,
                 secret_text = trim (js ''The cult leader is the mayor''), revealed = False, revealedAt = None\<rparr>])\<rparr> # dpost\<rparr> # post))
           # tail"
    by blast
  from q(1) f2 have "pre = [] \<and> post = []" by (cases pre) simp_all
  moreover from q(2) have "dpre = [] \<and> dpost = []" by (cases dpre) simp_all
  ultimately have c3: "hd (issued ?s2
        (showAddSecretDialog (js ''danger-17-k3x9'') XP30 (js ''The cult leader is the mayor'') 17 (js ''k3x9'')
           ok_save failed_fetch ?s2)) =
     SaveCall (Some [hollow_king\<lparr>dangers := [cult_of_ash\<lparr>secrets := Some [mayor_secret]\<rparr>]\<rparr>])"
    using q(3)
    by (simp add: trim_examples generateId_def show_nat_17 cult_of_ash_def mayor_secret_def xp_value_def)
  from c1 c2 c3 show ?thesis by blast
qed

text \<open>
  C7 as stated gives a new danger the submitted name, type, impulse and doom. Submitted
  with the name \<^verbatim>\<open>" Cult "\<close> and the three other fields empty, the danger that is saved
  has the name \<^verbatim>\<open>Cult\<close> and the three defaults.
\<close>

theorem created_danger_counterexample:
  "saved_payloads (issued example_state
     (showAddDangerDialog (js ''f1'') (js '' Cult '') [] [] [] 17 (js ''k3x9'') ok_save failed_fetch example_state)) =
     [Some [example_front\<lparr>dangers := [example_danger, default_danger]\<rparr>]] \<and>
   danger_name default_danger \<noteq> (js '' Cult '') \<and>
   dangerType default_danger \<noteq> [] \<and> impulse default_danger \<noteq> [] \<and> impendingDoom default_danger \<noteq> []"
  by (simp add: showAddDangerDialog_def run_defs generateId_def request_error_ok_save request_error_failed_fetch example_state_def
      example_front_def default_danger_def saved_payloads_def show_nat_17)

section \<open>Blank input\<close>

text \<open>
  The text dialog and the three creating dialogs reject a blank required text: nothing
  changes and nothing is issued.
\<close>

lemma blank_input_rejected:
  assumes "trim raw = []"
  shows "showEditTextDialog raw onSave st = st"
    and "showAddFrontDialog raw type_choice now rnd sr fr st = st"
    and "showAddDangerDialog frontId raw type_raw impulse_raw doom_raw now rnd sr fr st = st"
    and "showAddSecretDialog dangerId xp_choice raw now rnd sr fr st = st"
  using assms
  by (simp_all add: showEditTextDialog_def showAddFrontDialog_def showAddDangerDialog_def
      showAddSecretDialog_def Let_def)

text \<open>
  A name that consists of a no-break space only is blank: no front is created.
\<close>

lemma white_space_name_rejected:
  "showAddFrontDialog [0x00A0] Campaign 17 (js ''k3x9'') ok_save failed_fetch empty_state =
     empty_state"
  by (simp add: blank_input_rejected trim_white_space)

text \<open>
  C2 requires every dialog to reject a blank required text, with no mutation and no
  save request. The dialog that edits a danger and the dialog that edits a secret have
  no such check: submitted with a blank name (a blank text), they store the empty
  string in the document and send it to the server.
\<close>

theorem edit_dialogs_accept_blank_text:
  "trim (js ''   '') = [] \<and>
   saved_payloads (issued example_state
     (showEditDangerDialog (js ''d1'') (js ''   '') (js ''Ambitious Organizations'') (js ''to spread corruption'') (js ''Usurpation'')
        ok_save failed_fetch example_state)) =
     [Some [example_front\<lparr>dangers := [example_danger\<lparr>danger_name := []\<rparr>]\<rparr>]] \<and>
   saved_payloads (issued example_state
     (onEditSecret (js ''d1'') (js ''s1'') XP30 (js ''   '') ok_save failed_fetch example_state)) =
     [Some [example_front\<lparr>dangers := [example_danger\<lparr>secrets :=
        Some [\<lparr>secret_id = (js ''s1''), xp = 30, secret_text = [], revealed = False, revealedAt = None\<rparr>]\<rparr>]\<rparr>]]"
  by (simp add: showEditDangerDialog_def onEditSecret_def showEditSecretDialog_def xp_value_def
      run_defs request_error_ok_save request_error_failed_fetch example_defs saved_payloads_def)

end
